theory Spec2Isabelle
  imports Main "HOL-Library.Sublist"
begin

section \<open>Python values, exceptions and effects\<close>

text \<open>
  The orchestration code is Python.  An exception is a value: its class and the text that
  \<^verbatim>\<open>str(exc)\<close> prints.  Only the classes the code tells apart have a constructor of their
  own; \<open>OtherException\<close> stands for any other subclass of \<^verbatim>\<open>Exception\<close> (a transport fault
  of the model endpoint, for instance) and \<open>SystemExit\<close> for the classes that derive from
  \<^verbatim>\<open>BaseException\<close> only, which \<^verbatim>\<open>except Exception\<close> does not catch.
\<close>

datatype exn_class =
  JSONDecodeError | TypeError | AttributeError | ValueError | OSError
  | ImportError | RuntimeError | OtherException | SystemExit

datatype exn = Exn (exn_cls: exn_class) (exn_msg: string)

fun is_Exception :: "exn_class \<Rightarrow> bool" where
  "is_Exception SystemExit = False"
| "is_Exception _ = True"

text \<open>
  A function with effects takes the state of the world and returns either the exception it
  raised or its value, together with the state it left behind.
\<close>

type_synonym ('a, 'w) io = "'w \<Rightarrow> (exn + 'a) \<times> 'w"

section \<open>Messages, tool calls and model responses\<close>

text \<open>
  A tool call of the model: \<^verbatim>\<open>tc.id\<close>, \<^verbatim>\<open>tc.function.name\<close> and
  \<^verbatim>\<open>tc.function.arguments\<close>, the raw argument text, which may be \<^verbatim>\<open>None\<close>.
\<close>

record tool_call =
  tc_id :: string
  tc_name :: string
  tc_arguments :: "string option"

text \<open>
  The transcript holds dictionaries of three shapes:
  \<^verbatim>\<open>{"role": r, "content": text}\<close>, \<^verbatim>\<open>{"role": "assistant", "tool_calls": calls}\<close> and
  \<^verbatim>\<open>{"role": "tool", "tool_call_id": id, "content": text}\<close>.
\<close>

datatype role = Developer | User | Assistant

datatype message =
  ChatText role string
  | AssistantCalls "tool_call list"
  | ToolReply string string

text \<open>The assistant message of a response: \<^verbatim>\<open>message.content\<close> and \<^verbatim>\<open>message.tool_calls\<close>.\<close>

record response =
  r_content :: "string option"
  r_tool_calls :: "tool_call list option"

text \<open>\<^verbatim>\<open>message.tool_calls or []\<close>: the truth value of the field is that of this list.\<close>

definition calls_of :: "response \<Rightarrow> tool_call list" where
  "calls_of message = (case r_tool_calls message of None \<Rightarrow> [] | Some tcs \<Rightarrow> tcs)"

text \<open>\<^verbatim>\<open>message.content or ""\<close>\<close>

definition content_or_empty :: "response \<Rightarrow> string" where
  "content_or_empty message = (case r_content message of None \<Rightarrow> [] | Some c \<Rightarrow> c)"

section \<open>ToolChatAgent (tool\_chat.py)\<close>

text \<open>
  The fields of a \<^verbatim>\<open>ToolChatAgent\<close> that its \<^verbatim>\<open>run\<close> reads.  \<open>client\<close> is
  \<^verbatim>\<open>self.client.chat.completions.create\<close>: it receives the advertised tools (their names;
  \<open>None\<close> when tool use is disabled) and the transcript, and answers with a response or
  raises.  \<open>tool_handlers\<close> is the dictionary from tool name to handler.  Log events are
  not modelled: they do not take part in the control flow.
\<close>

record 'w tool_chat_agent =
  client :: "string list option \<Rightarrow> message list \<Rightarrow> (response, 'w) io"
  tools :: "string list"
  tool_handlers :: "string \<Rightarrow> (tool_call \<Rightarrow> int \<Rightarrow> (string, 'w) io) option"
  max_steps :: int

text \<open>
  The inner \<^verbatim>\<open>for tc in message.tool_calls\<close> loop (lines 60--69): one tool message per
  call, in order.  Nothing is caught here: when a handler raises, the loop is left with that
  exception and the messages appended so far.
\<close>

fun handle_tool_calls ::
  "(string \<Rightarrow> (tool_call \<Rightarrow> int \<Rightarrow> (string, 'w) io) option) \<Rightarrow> int \<Rightarrow> tool_call list
    \<Rightarrow> message list \<Rightarrow> 'w \<Rightarrow> exn option \<times> message list \<times> 'w" where
  "handle_tool_calls handlers step_num [] messages w = (None, messages, w)"
| "handle_tool_calls handlers step_num (tc # tcs) messages w =
     (case handlers (tc_name tc) of
        None \<Rightarrow>
          handle_tool_calls handlers step_num tcs
            (messages @ [ToolReply (tc_id tc) (''Unknown tool: '' @ tc_name tc)]) w
      | Some handler \<Rightarrow>
          (case handler tc step_num w of
             (Inl e, w') \<Rightarrow> (Some e, messages, w')
           | (Inr result, w') \<Rightarrow>
               handle_tool_calls handlers step_num tcs
                 (messages @ [ToolReply (tc_id tc) result]) w'))"

text \<open>
  A round is a chat-completion request: the transcript that was sent and what came back.
  The loop \<^verbatim>\<open>for inner_step in range(1, self.max_steps + 1)\<close> (lines 36--73) is a recursion
  over the list of step numbers.  It returns what \<^verbatim>\<open>run\<close> returns or raises, the rounds
  it made, the transcript and the world.
\<close>

type_synonym round = "message list \<times> (exn + response)"

fun run_steps ::
  "'w tool_chat_agent \<Rightarrow> int \<Rightarrow> int list \<Rightarrow> message list \<Rightarrow> 'w
    \<Rightarrow> (exn + string) \<times> round list \<times> message list \<times> 'w" where
  "run_steps ag step_num [] messages w = (Inr [], [], messages, w)"
| "run_steps ag step_num (inner_step # rest) messages w =
     (case client ag (Some (tools ag)) messages w of
        (Inl e, w1) \<Rightarrow> (Inl e, [(messages, Inl e)], messages, w1)
      | (Inr message, w1) \<Rightarrow>
          if calls_of message \<noteq> [] then
            (case handle_tool_calls (tool_handlers ag) step_num (calls_of message)
                    (messages @ [AssistantCalls (calls_of message)]) w1 of
               (Some e, messages2, w2) \<Rightarrow> (Inl e, [(messages, Inr message)], messages2, w2)
             | (None, messages2, w2) \<Rightarrow>
                 (case run_steps ag step_num rest messages2 w2 of
                    (res, rounds, messages3, w3) \<Rightarrow>
                      (res, (messages, Inr message) # rounds, messages3, w3)))
          else
            (Inr (content_or_empty message), [(messages, Inr message)],
             messages @ [ChatText Assistant (content_or_empty message)], w1))"

text \<open>
  \<^verbatim>\<open>ToolChatAgent.run(system_prompt, step_num, messages=None)\<close>: the prompt is appended
  to the given transcript (a fresh one when none is given) before the loop starts.
\<close>

definition run ::
  "'w tool_chat_agent \<Rightarrow> string \<Rightarrow> int \<Rightarrow> message list option \<Rightarrow> 'w
    \<Rightarrow> (exn + string) \<times> round list \<times> message list \<times> 'w" where
  "run ag system_prompt step_num messages w =
     run_steps ag step_num [1..max_steps ag]
       ((case messages of None \<Rightarrow> [] | Some ms \<Rightarrow> ms) @ [ChatText Developer system_prompt]) w"

section \<open>Strings\<close>

text \<open>
  \<^verbatim>\<open>str.strip()\<close> removes leading and trailing white space; \<^verbatim>\<open>sep.join(xs)\<close>
  concatenates with a separator; \<^verbatim>\<open>str(n)\<close> prints an integer in decimal.
\<close>

definition py_space :: "char \<Rightarrow> bool" where
  "py_space c = (c \<in> set [CHR '' '', CHR 0x09, CHR 0x0A, CHR 0x0B, CHR 0x0C, CHR 0x0D,
                           CHR 0x1C, CHR 0x1D, CHR 0x1E, CHR 0x1F])"

definition strip :: "string \<Rightarrow> string" where
  "strip s = rev (dropWhile py_space (rev (dropWhile py_space s)))"

fun join :: "string \<Rightarrow> string list \<Rightarrow> string" where
  "join sep [] = []"
| "join sep [x] = x"
| "join sep (x # y # ys) = x @ sep @ join sep (y # ys)"

fun contains :: "string \<Rightarrow> string \<Rightarrow> bool" where
  "contains sub [] = (sub = [])"
| "contains sub (c # cs) = (prefix sub (c # cs) \<or> contains sub cs)"

definition digit :: "nat \<Rightarrow> char" where
  "digit d = ''0123456789'' ! d"

function str_nat :: "nat \<Rightarrow> string" where
  "str_nat n = (if n < 10 then [digit n] else str_nat (n div 10) @ [digit (n mod 10)])"
  by pat_completeness auto
termination
  by (relation "measure id") auto

declare str_nat.simps [simp del]

definition str_int :: "int \<Rightarrow> string" where
  "str_int i = (if i < 0 then CHR ''-'' # str_nat (nat (- i)) else str_nat (nat i))"

definition str_bool :: "bool \<Rightarrow> string" where
  "str_bool b = (if b then ''True'' else ''False'')"

section \<open>Decoded JSON\<close>

text \<open>
  What \<^verbatim>\<open>json.loads\<close> returns.  An object is an association list with one entry per key.
  Numbers are integers here: a fractional number goes through every test below as a
  non-zero integer does.
\<close>

datatype json =
  JNull | JBool bool | JNum int | JStr string | JArr "json list" | JObj "(string \<times> json) list"

text \<open>The truth value Python gives a decoded value (\<^verbatim>\<open>not v\<close> is its negation).\<close>

fun truthy :: "json \<Rightarrow> bool" where
  "truthy JNull = False"
| "truthy (JBool b) = b"
| "truthy (JNum n) = (n \<noteq> 0)"
| "truthy (JStr s) = (s \<noteq> [])"
| "truthy (JArr xs) = (xs \<noteq> [])"
| "truthy (JObj kvs) = (kvs \<noteq> [])"

text \<open>\<^verbatim>\<open>d.get(k)\<close> is \<open>None\<close> for a missing key; \<^verbatim>\<open>not d.get(k)\<close> holds then as well.\<close>

definition present :: "json option \<Rightarrow> bool" where
  "present v = (case v of None \<Rightarrow> False | Some x \<Rightarrow> truthy x)"

fun py_type_name :: "json \<Rightarrow> string" where
  "py_type_name JNull = ''NoneType''"
| "py_type_name (JBool b) = ''bool''"
| "py_type_name (JNum n) = ''int''"
| "py_type_name (JStr s) = ''str''"
| "py_type_name (JArr xs) = ''list''"
| "py_type_name (JObj kvs) = ''dict''"

text \<open>The exception of \<^verbatim>\<open>v.attr\<close> on a value that has no such attribute.\<close>

definition no_attribute :: "json \<Rightarrow> string \<Rightarrow> exn" where
  "no_attribute v attr =
     Exn AttributeError
       ([CHR 0x27] @ py_type_name v @ [CHR 0x27] @ '' object has no attribute '' @
        [CHR 0x27] @ attr @ [CHR 0x27])"

section \<open>Paths and the file system\<close>

text \<open>
  A \<^verbatim>\<open>pathlib.Path\<close>: absolute or relative, with its components (\<^verbatim>\<open>..\<close> is kept
  until the path is resolved).  A resolved path is the list of components below the root.
\<close>

datatype pypath = PyPath (is_absolute: bool) (parts: "string list")

type_synonym path = "string list"

fun split_on :: "char \<Rightarrow> string \<Rightarrow> string list" where
  "split_on sep [] = [[]]"
| "split_on sep (c # cs) =
     (if c = sep then [] # split_on sep cs
      else (case split_on sep cs of [] \<Rightarrow> [[c]] | x # xs \<Rightarrow> (c # x) # xs))"

text \<open>\<^verbatim>\<open>Path(text)\<close>: empty components and \<^verbatim>\<open>.\<close> are dropped.\<close>

definition Path :: "string \<Rightarrow> pypath" where
  "Path s = PyPath (prefix ''/'' s) (filter (\<lambda>c. c \<noteq> [] \<and> c \<noteq> ''.'') (split_on CHR ''/'' s))"

text \<open>\<^verbatim>\<open>a / b\<close>, \<^verbatim>\<open>p.parent\<close>, \<^verbatim>\<open>p.as_posix()\<close>\<close>

definition joinpath :: "pypath \<Rightarrow> pypath \<Rightarrow> pypath" where
  "joinpath a b = (if is_absolute b then b else PyPath (is_absolute a) (parts a @ parts b))"

definition parent :: "pypath \<Rightarrow> pypath" where
  "parent p = PyPath (is_absolute p) (butlast (parts p))"

definition as_posix :: "pypath \<Rightarrow> string" where
  "as_posix p =
     (if is_absolute p then CHR ''/'' # join ''/'' (parts p)
      else if parts p = [] then ''.'' else join ''/'' (parts p))"

text \<open>
  \<^verbatim>\<open>target.relative_to(base)\<close> compares components only: it raises \<^verbatim>\<open>ValueError\<close>
  unless \<open>base\<close> is a prefix of \<open>target\<close>.
\<close>

definition relative_to :: "pypath \<Rightarrow> pypath \<Rightarrow> exn + pypath" where
  "relative_to target base =
     (if is_absolute target = is_absolute base \<and> prefix (parts base) (parts target)
      then Inr (PyPath False (drop (length (parts base)) (parts target)))
      else Inl (Exn ValueError
        ([CHR 0x27] @ as_posix target @ [CHR 0x27] @ '' is not in the subpath of '' @
         [CHR 0x27] @ as_posix base @ [CHR 0x27])))"

text \<open>
  The file system maps resolved paths to nodes; the root is a directory.  Permissions and
  devices are not modelled: the operations fail only where a file stands in the way of a
  directory or a directory in the way of a file.
\<close>

datatype node = File string | Dir

type_synonym fs = "path \<Rightarrow> node option"

definition is_dir :: "fs \<Rightarrow> path \<Rightarrow> bool" where
  "is_dir files p = (p = [] \<or> files p = Some Dir)"

text \<open>
  \<^verbatim>\<open>mkdir(parents=True, exist_ok=True)\<close> creates the missing directories from the root
  down, and raises at the first component that is a file; what it created before stays.
\<close>

fun mkdir_from :: "path \<Rightarrow> string list \<Rightarrow> fs \<Rightarrow> exn option \<times> fs" where
  "mkdir_from done [] files = (None, files)"
| "mkdir_from done (c # cs) files =
     (case files (done @ [c]) of
        Some Dir \<Rightarrow> mkdir_from (done @ [c]) cs files
      | Some (File text) \<Rightarrow>
          (Some (Exn OSError (''File exists: '' @ as_posix (PyPath True (done @ [c])))), files)
      | None \<Rightarrow> mkdir_from (done @ [c]) cs (files((done @ [c]) \<mapsto> Dir)))"

definition mkdir_parents :: "path \<Rightarrow> fs \<Rightarrow> exn option \<times> fs" where
  "mkdir_parents p files = mkdir_from [] p files"

definition write_text :: "path \<Rightarrow> string \<Rightarrow> fs \<Rightarrow> exn option \<times> fs" where
  "write_text p text files =
     (if is_dir files p then
        (Some (Exn OSError (''Is a directory: '' @ as_posix (PyPath True p))), files)
      else if \<not> is_dir files (butlast p) then
        (Some (Exn OSError (''No such file or directory: '' @ as_posix (PyPath True p))), files)
      else (None, files(p \<mapsto> File text)))"

section \<open>The collaborators outside the repository\<close>

text \<open>
  What the code calls and does not define is a parameter of the model:
  the JSON decoder (\<open>Inl\<close> is the text of its \<^verbatim>\<open>JSONDecodeError\<close>), \<^verbatim>\<open>repr\<close> of a
  decoded value, \<^verbatim>\<open>Path.resolve\<close>, the remote model (its answer to the n-th request for
  the advertised tools and the transcript), \<^verbatim>\<open>subprocess.run\<close> in a working directory,
  the dynamic load of a module file, the documentation provider (an MCP client), and the
  formatting of the prompt templates.
\<close>

datatype proc_result = Finished "string option" int | TimeoutExpired | SpawnFailed exn

text \<open>
  A load either raises or yields a module; of the module only
  \<^verbatim>\<open>callable(getattr(module, "solve", None))\<close> is read.
\<close>

datatype load_outcome = LoadRaises exn | Loaded bool

datatype template = CODER_PROMPT_BASE | TEST_GEN_PROMPT | RESEARCHER_PROMPT

record env =
  json_decode :: "string \<Rightarrow> string + json"
  py_repr :: "json \<Rightarrow> string"
  resolve :: "pypath \<Rightarrow> path"
  completions :: "nat \<Rightarrow> string list option \<Rightarrow> message list \<Rightarrow> exn + response"
  subprocess_run :: "string \<Rightarrow> path \<Rightarrow> fs \<Rightarrow> proc_result \<times> fs"
  exec_module :: "path \<Rightarrow> fs \<Rightarrow> load_outcome"
  mcp_connect :: "exn option"
  mcp_list_tools :: "exn + string list"
  mcp_call_tool :: "string \<Rightarrow> json \<Rightarrow> exn + string list"
  format :: "template \<Rightarrow> (string \<times> string) list \<Rightarrow> string"

text \<open>
  The state a run changes: the files, the number of chat completions served so far,
  \<^verbatim>\<open>CoderTool.solver_path\<close>, \<^verbatim>\<open>TestGenerator.solver_path\<close> and
  \<^verbatim>\<open>TestGenerator.history\<close>.
\<close>

record world =
  files :: fs
  served :: nat
  coder_solver_path :: pypath
  test_solver_path :: pypath
  history :: "message list"

text \<open>\<^verbatim>\<open>client.chat.completions.create(model, messages, tools)\<close>\<close>

definition create :: "env \<Rightarrow> string list option \<Rightarrow> message list \<Rightarrow> (response, world) io" where
  "create env advertised messages w =
     (completions env (served w) advertised messages, w\<lparr>served := served w + 1\<rparr>)"

text \<open>
  \<^verbatim>\<open>json.loads(raw)\<close>: a \<^verbatim>\<open>TypeError\<close> on \<open>None\<close>, a \<^verbatim>\<open>JSONDecodeError\<close> where the
  decoder fails.  The text \<^verbatim>\<open>{}\<close>, which the code substitutes for absent arguments,
  decodes to the empty object.
\<close>

definition json_loads :: "env \<Rightarrow> string option \<Rightarrow> exn + json" where
  "json_loads env raw =
     (case raw of
        None \<Rightarrow>
          Inl (Exn TypeError ''the JSON object must be str, bytes or bytearray, not NoneType'')
      | Some s \<Rightarrow>
          if s = ''{}'' then Inr (JObj [])
          else (case json_decode env s of
                  Inl err \<Rightarrow> Inl (Exn JSONDecodeError err)
                | Inr v \<Rightarrow> Inr v))"

text \<open>\<^verbatim>\<open>raw or "{}"\<close> and \<^verbatim>\<open>raw or ""\<close>\<close>

definition or_braces :: "string option \<Rightarrow> string" where
  "or_braces raw = (case raw of None \<Rightarrow> ''{}'' | Some s \<Rightarrow> if s = [] then ''{}'' else s)"

definition or_empty :: "string option \<Rightarrow> string" where
  "or_empty raw = (case raw of None \<Rightarrow> [] | Some s \<Rightarrow> s)"

text \<open>\<^verbatim>\<open>p.exists()\<close> and \<^verbatim>\<open>rel_path(workdir, target)\<close> of utils.py\<close>

definition exists :: "env \<Rightarrow> pypath \<Rightarrow> fs \<Rightarrow> bool" where
  "exists env p fls = (resolve env p = [] \<or> fls (resolve env p) \<noteq> None)"

definition rel_path :: "env \<Rightarrow> pypath \<Rightarrow> pypath \<Rightarrow> string" where
  "rel_path env workdir target =
     (case relative_to (PyPath True (resolve env target)) (PyPath True (resolve env workdir)) of
        Inr rel \<Rightarrow> as_posix rel
      | Inl e \<Rightarrow> as_posix (PyPath True (resolve env target)))"

text \<open>
  \<^verbatim>\<open>try: ... except Exception as exc: return handler(exc)\<close> around a computation: an
  exception outside \<^verbatim>\<open>Exception\<close> passes through.
\<close>

definition except_Exception :: "(exn + 'a) \<times> 'w \<Rightarrow> (exn \<Rightarrow> 'a) \<Rightarrow> (exn + 'a) \<times> 'w" where
  "except_Exception r handler =
     (case r of
        (Inl e, w) \<Rightarrow> if is_Exception (exn_cls e) then (Inr (handler e), w) else (Inl e, w)
      | (Inr v, w) \<Rightarrow> (Inr v, w))"

section \<open>ShellInterface (shell\_interface.py)\<close>

text \<open>
  \<^verbatim>\<open>run_command\<close> (lines 17--41) of a \<^verbatim>\<open>ShellInterface\<close> whose resolved working
  directory is \<open>cwd\<close> and whose timeout is the 60.0 seconds \<^verbatim>\<open>RunShellTool\<close> gives it.
\<close>

definition run_command :: "env \<Rightarrow> path \<Rightarrow> string \<Rightarrow> (string \<times> int, world) io" where
  "run_command env cwd cmd w =
     (if strip cmd = [] then (Inr (''Empty command'', - 1), w)
      else
        (case subprocess_run env cmd cwd (files w) of
           (Finished stdout returncode, fls) \<Rightarrow>
             (Inr (or_empty stdout, returncode), w\<lparr>files := fls\<rparr>)
         | (TimeoutExpired, fls) \<Rightarrow>
             (Inr (''Command timed out after 60.0 seconds'', - 1), w\<lparr>files := fls\<rparr>)
         | (SpawnFailed e, fls) \<Rightarrow>
             except_Exception (Inl e, w\<lparr>files := fls\<rparr>)
               (\<lambda>exc. (''Command execution failed: '' @ exn_msg exc, - 1))))"

text \<open>
  \<^verbatim>\<open>_handle_write_file(arg, content)\<close> (lines 80--99), the built-in
  \<^verbatim>\<open>write_file\<close> custom command.  Only the containment check is inside the
  \<^verbatim>\<open>try\<close>; a failure of \<^verbatim>\<open>mkdir\<close> or \<^verbatim>\<open>write_text\<close> is raised.
\<close>

definition handle_write_file ::
  "env \<Rightarrow> path \<Rightarrow> string \<Rightarrow> string option \<Rightarrow> (string \<times> int, world) io" where
  "handle_write_file env cwd arg content w =
     (if arg = [] then (Inr (''Usage: write_file <path>'', 1), w)
      else
        (case content of
           None \<Rightarrow>
             (Inr (''write_file requires a 'content' field in the JSON payload'', 1), w)
         | Some text \<Rightarrow>
             (let target0 = (if is_absolute (Path arg) then Path arg
                             else joinpath (PyPath True cwd) (Path arg));
                  target = resolve env target0
              in case relative_to (PyPath True target) (PyPath True cwd) of
                   Inl e \<Rightarrow>
                     (Inr (''write_file target must be within the working directory'', 1), w)
                 | Inr rel \<Rightarrow>
                     (case mkdir_parents (butlast target) (files w) of
                        (Some e, fls) \<Rightarrow> (Inl e, w\<lparr>files := fls\<rparr>)
                      | (None, fls) \<Rightarrow>
                          (case write_text target text fls of
                             (Some e, fls2) \<Rightarrow> (Inl e, w\<lparr>files := fls2\<rparr>)
                           | (None, fls2) \<Rightarrow>
                               (Inr (''Wrote '' @ str_nat (length text) @ '' bytes to '' @
                                     as_posix rel, 0),
                                w\<lparr>files := fls2\<rparr>))))))"

section \<open>RunShellTool and WriteFileTool (tool\_interface.py)\<close>

text \<open>
  \<^verbatim>\<open>RunShellTool.execute\<close> (lines 61--105).  \<open>workdir\<close> is the directory the tool was
  built with; its \<^verbatim>\<open>ShellInterface\<close> resolves it.  A \<^verbatim>\<open>cmd\<close> that is not text has no
  \<^verbatim>\<open>strip\<close>.
\<close>

definition run_shell_execute :: "env \<Rightarrow> pypath \<Rightarrow> tool_call \<Rightarrow> int \<Rightarrow> (string, world) io" where
  "run_shell_execute env workdir tool_call step_num w =
     (case json_loads env (tc_arguments tool_call) of
        Inl exc \<Rightarrow>
          if exn_cls exc = JSONDecodeError
          then (Inr (''Error: Invalid JSON in run_shell arguments ('' @ exn_msg exc @ '')''), w)
          else (Inl exc, w)
      | Inr (JObj args) \<Rightarrow>
          if \<not> present (map_of args ''cmd'') then
            (Inr ''Error: Must include cmd in call to run_shell'', w)
          else if \<not> present (map_of args ''action'') then
            (Inr ''Error: Must include action in call to run_shell'', w)
          else
            (case map_of args ''cmd'' of
               Some (JStr cmd) \<Rightarrow>
                 (case run_command env (resolve env workdir) cmd w of
                    (Inl e, w') \<Rightarrow> (Inl e, w')
                  | (Inr (output, return_code), w') \<Rightarrow>
                      (Inr (output @ '' (exit_code='' @ str_int return_code @ '')''), w'))
             | Some v \<Rightarrow> (Inl (no_attribute v ''strip''), w)
             | None \<Rightarrow> (Inl (no_attribute JNull ''strip''), w))
      | Inr other \<Rightarrow> (Inr ''Error: run_shell arguments must be a JSON object'', w))"

text \<open>
  The \<^verbatim>\<open>try\<close> block of \<^verbatim>\<open>WriteFileTool.execute\<close> (lines 183--190): resolve, check
  that the target is below the working directory, create the directories, write.
\<close>

definition write_within :: "env \<Rightarrow> pypath \<Rightarrow> pypath \<Rightarrow> json \<Rightarrow> (string, world) io" where
  "write_within env workdir target0 content_arg w =
     (let target = PyPath True (resolve env target0)
      in case relative_to target workdir of
           Inl e \<Rightarrow> (Inl e, w)
         | Inr rel \<Rightarrow>
             (case mkdir_parents (parts (parent target)) (files w) of
                (Some e, fls) \<Rightarrow> (Inl e, w\<lparr>files := fls\<rparr>)
              | (None, fls) \<Rightarrow>
                  (case content_arg of
                     JStr text \<Rightarrow>
                       (case write_text (parts target) text fls of
                          (Some e, fls2) \<Rightarrow> (Inl e, w\<lparr>files := fls2\<rparr>)
                        | (None, fls2) \<Rightarrow>
                            (Inr (''Wrote '' @ str_nat (length text) @ '' bytes to '' @
                                  as_posix rel),
                             w\<lparr>files := fls2\<rparr>))
                   | other \<Rightarrow>
                       (Inl (Exn TypeError (''data must be str, not '' @ py_type_name other)),
                        w\<lparr>files := fls\<rparr>))))"

text \<open>
  \<^verbatim>\<open>WriteFileTool.execute\<close> (lines 138--193).  \<^verbatim>\<open>Path(path)\<close> stands before the
  \<^verbatim>\<open>try\<close>: a \<^verbatim>\<open>path\<close> that is not text raises.
\<close>

definition write_file_execute :: "env \<Rightarrow> pypath \<Rightarrow> tool_call \<Rightarrow> int \<Rightarrow> (string, world) io" where
  "write_file_execute env workdir tool_call step_num w =
     (case json_loads env (tc_arguments tool_call) of
        Inl exc \<Rightarrow>
          if exn_cls exc = JSONDecodeError
          then (Inr (''Error: Invalid JSON in write_file arguments ('' @ exn_msg exc @ '')''), w)
          else (Inl exc, w)
      | Inr (JObj args) \<Rightarrow>
          if \<not> present (map_of args ''path'') then
            (Inr ''Error: Must include path in call to write_file'', w)
          else if \<not> present (map_of args ''content'') then
            (Inr ''Error: Must include content in call to write_file'', w)
          else if \<not> present (map_of args ''action'') then
            (Inr ''Error: Must include action in call to write_file'', w)
          else
            (case (map_of args ''path'', map_of args ''content'') of
               (Some (JStr path), Some content_arg) \<Rightarrow>
                 except_Exception
                   (write_within env workdir
                      (if is_absolute (Path path) then Path path else joinpath workdir (Path path))
                      content_arg w)
                   (\<lambda>exc. ''Error writing file: '' @ exn_msg exc)
             | (Some v, c) \<Rightarrow>
                 (Inl (Exn TypeError
                    (''expected str, bytes or os.PathLike object, not '' @ py_type_name v)), w)
             | (None, c) \<Rightarrow>
                 (Inl (Exn TypeError
                    ''expected str, bytes or os.PathLike object, not NoneType''), w))
      | Inr other \<Rightarrow> (Inr ''Error: write_file arguments must be a JSON object'', w))"

section \<open>The run configuration\<close>

text \<open>
  The fields of \<^verbatim>\<open>MultiAgent\<close> and the values \<^verbatim>\<open>MultiAgent.run\<close> computes before
  its loop (orchestrator.py, lines 57--141): the resolved working directory, the task
  description as the caller gave it, the interpreter command, the packages, the two reference texts and the formatted coordinator
  prompt.  \<open>agent_max_steps\<close> is \<^verbatim>\<open>self.max_steps\<close>.  The sub-agents are built with
  their default budgets.
\<close>

record multi_agent =
  task :: string
  agent_max_steps :: int
  enable_researcher :: bool
  enable_tester :: bool
  workdir :: pypath
  task_description :: string
  python_cmd :: string
  packages :: "string list"
  reference_text :: string
  validation_text :: string
  system_prompt :: string

definition coder_max_steps :: int where "coder_max_steps = 14"
definition test_generator_max_steps :: int where "test_generator_max_steps = 10"
definition researcher_max_steps :: int where "researcher_max_steps = 15"
definition num_test_problems :: int where "num_test_problems = 3"

text \<open>\<^verbatim>\<open>text or default\<close>\<close>

definition or_default :: "string \<Rightarrow> string \<Rightarrow> string" where
  "or_default text fallback = (if text = [] then fallback else text)"

section \<open>ResearcherTool (researcher.py)\<close>

text \<open>\<^verbatim>\<open>_safe_json_load\<close> (lines 204--208)\<close>

definition safe_json_load :: "env \<Rightarrow> string option \<Rightarrow> json" where
  "safe_json_load env raw_json =
     (case json_loads env (Some (or_braces raw_json)) of Inl e \<Rightarrow> JObj [] | Inr v \<Rightarrow> v)"

text \<open>
  The tool calls of one assistant turn (lines 148--176): each goes to the provider; an
  \<^verbatim>\<open>Exception\<close> of the provider becomes the text of the tool message.
  \<^verbatim>\<open>_extract_tool_text\<close> joins the non-empty text fragments of a result.
\<close>

fun mcp_tool_calls ::
  "env \<Rightarrow> tool_call list \<Rightarrow> message list \<Rightarrow> exn option \<times> message list" where
  "mcp_tool_calls env [] messages = (None, messages)"
| "mcp_tool_calls env (tc # tcs) messages =
     (case mcp_call_tool env (tc_name tc) (safe_json_load env (tc_arguments tc)) of
        Inr fragments \<Rightarrow>
          mcp_tool_calls env tcs
            (messages @ [ToolReply (tc_id tc)
                           (join ''\<newline>'' (filter (\<lambda>t. t \<noteq> []) fragments))])
      | Inl exc \<Rightarrow>
          if is_Exception (exn_cls exc) then
            mcp_tool_calls env tcs
              (messages @ [ToolReply (tc_id tc)
                             (''Error calling MCP tool '' @ tc_name tc @ '': '' @ exn_msg exc)])
          else (Some exc, messages))"

text \<open>
  The loop of \<^verbatim>\<open>_run_researcher\<close> (lines 116--176).  It yields \<^verbatim>\<open>final_text\<close>, which
  is empty when the budget ran out, or the exception a request raised.
\<close>

fun researcher_steps ::
  "env \<Rightarrow> string list \<Rightarrow> int list \<Rightarrow> message list \<Rightarrow> world
    \<Rightarrow> (exn + string) \<times> message list \<times> world" where
  "researcher_steps env openai_tools [] messages w = (Inr [], messages, w)"
| "researcher_steps env openai_tools (inner_step # rest) messages w =
     (case create env (Some openai_tools) messages w of
        (Inl e, w1) \<Rightarrow> (Inl e, messages, w1)
      | (Inr message, w1) \<Rightarrow>
          if calls_of message = [] then
            (Inr (content_or_empty message),
             messages @ [ChatText Assistant (content_or_empty message)], w1)
          else
            (case mcp_tool_calls env (calls_of message)
                    (messages @ [AssistantCalls (calls_of message)]) of
               (Some e, messages2) \<Rightarrow> (Inl e, messages2, w1)
             | (None, messages2) \<Rightarrow> researcher_steps env openai_tools rest messages2 w1))"

text \<open>
  \<^verbatim>\<open>_run_researcher\<close> (lines 79--201): connect, list the provider's tools, run the loop,
  and when no text came out of it make one more request with \<^verbatim>\<open>tools=None\<close>.
\<close>

definition run_researcher :: "env \<Rightarrow> string \<Rightarrow> int \<Rightarrow> (string, world) io" where
  "run_researcher env prompt step_num w =
     (case mcp_connect env of
        Some e \<Rightarrow> (Inl e, w)
      | None \<Rightarrow>
          (case mcp_list_tools env of
             Inl exc \<Rightarrow>
               except_Exception (Inl exc, w) (\<lambda>exc. ''Error listing MCP tools: '' @ exn_msg exc)
           | Inr openai_tools \<Rightarrow>
               (case researcher_steps env openai_tools [1..researcher_max_steps]
                       [ChatText Developer prompt] w of
                  (Inl e, messages, w1) \<Rightarrow> (Inl e, w1)
                | (Inr final_text, messages, w1) \<Rightarrow>
                    if final_text = [] then
                      (case create env None
                              (messages @ [ChatText User
                                 ''Summarize your findings now in plain text (no tool calls).''])
                              w1 of
                         (Inl e, w2) \<Rightarrow> (Inl e, w2)
                       | (Inr summary_msg, w2) \<Rightarrow>
                           (Inr (or_default (content_or_empty summary_msg)
                                   ''No researcher answer produced.''), w2))
                    else (Inr (or_default final_text ''No researcher answer produced.''), w1))))"

text \<open>
  \<^verbatim>\<open>_run_async\<close> (lines 219--227): after a \<^verbatim>\<open>RuntimeError\<close> the coroutine is handed to
  a second event loop, which refuses a coroutine that has already run.
\<close>

definition run_async :: "(exn + string) \<times> world \<Rightarrow> (exn + string) \<times> world" where
  "run_async r =
     (case r of
        (Inl e, w) \<Rightarrow>
          if exn_cls e = RuntimeError
          then (Inl (Exn RuntimeError ''cannot reuse already awaited coroutine''), w)
          else (Inl e, w)
      | (Inr v, w) \<Rightarrow> (Inr v, w))"

text \<open>\<^verbatim>\<open>args.get(key, "").strip()\<close>: a value that is not text has no \<^verbatim>\<open>strip\<close>.\<close>

definition stripped_field :: "json option \<Rightarrow> exn + string" where
  "stripped_field v =
     (case v of
        None \<Rightarrow> Inr []
      | Some (JStr s) \<Rightarrow> Inr (strip s)
      | Some x \<Rightarrow> Inl (no_attribute x ''strip''))"

fun str_items :: "json list \<Rightarrow> exn + string list" where
  "str_items [] = Inr []"
| "str_items (JStr s # xs) = (case str_items xs of Inl e \<Rightarrow> Inl e | Inr ys \<Rightarrow> Inr (s # ys))"
| "str_items (x # xs) =
     Inl (Exn TypeError (''sequence item: expected str instance, '' @ py_type_name x @ '' found''))"

text \<open>
  \<^verbatim>\<open>", ".join(libraries) if libraries else "(none provided)"\<close> for
  \<^verbatim>\<open>libraries = args.get("libraries") or []\<close>: joining iterates a list, the characters
  of a text or the keys of an object.
\<close>

definition libraries_text :: "json option \<Rightarrow> exn + string" where
  "libraries_text v =
     (if \<not> present v then Inr ''(none provided)''
      else
        (case v of
           Some (JArr xs) \<Rightarrow>
             (case str_items xs of Inl e \<Rightarrow> Inl e | Inr ys \<Rightarrow> Inr (join '', '' ys))
         | Some (JStr s) \<Rightarrow> Inr (join '', '' (map (\<lambda>c. [c]) s))
         | Some (JObj kvs) \<Rightarrow> Inr (join '', '' (map fst kvs))
         | Some x \<Rightarrow> Inl (Exn TypeError ''can only join an iterable'')
         | None \<Rightarrow> Inr ''(none provided)''))"

text \<open>
  \<^verbatim>\<open>ResearcherTool.execute\<close> (lines 48--77).  Only the nested run stands inside the
  \<^verbatim>\<open>try\<close>; reading the fields of the arguments stands before it.
\<close>

definition researcher_execute ::
  "env \<Rightarrow> multi_agent \<Rightarrow> tool_call \<Rightarrow> int \<Rightarrow> (string, world) io" where
  "researcher_execute env ma tool_call step_num w =
     (let raw_args = or_empty (tc_arguments tool_call);
          args = safe_json_load env (Some raw_args)
      in if \<not> truthy args then
           (Inr (''Error: Invalid JSON in call_researcher arguments.\<newline>\<newline>Received: '' @
                 take 200 raw_args @
                 ''\<newline>\<newline>Please provide 'query' as a string and optionally 'libraries' as an array of strings.''),
            w)
         else
           (case args of
              JObj kvs \<Rightarrow>
                (case stripped_field (map_of kvs ''query'') of
                   Inl e \<Rightarrow> (Inl e, w)
                 | Inr query \<Rightarrow>
                     if query = [] then
                       (Inr ''Error: 'query' parameter is required for call_researcher.\<newline>\<newline>Please provide a clear question about what library/API information you need.'',
                        w)
                     else
                       (case libraries_text (map_of kvs ''libraries'') of
                          Inl e \<Rightarrow> (Inl e, w)
                        | Inr libs \<Rightarrow>
                            except_Exception
                              (run_async
                                 (run_researcher env
                                    (format env RESEARCHER_PROMPT
                                       [(''query'', query), (''libraries'', libs),
                                        (''task_description'',
                                           or_default (task_description ma)
                                             ''(no description provided)'')])
                                    step_num w))
                              (\<lambda>exc. ''Error running researcher: '' @ exn_msg exc @
                                 ''\<newline>\<newline>Query: '' @ query @ ''\<newline>Libraries: '' @ libs @
                                 ''\<newline>\<newline>The MCP service may be unavailable or the query may have timed out. Consider rephrasing the query or trying fewer libraries at once.'')))
            | other \<Rightarrow> (Inl (no_attribute other ''get''), w)))"

section \<open>CoderTool (coder.py)\<close>

text \<open>
  The nested agent of the coder (lines 60--81): \<^verbatim>\<open>write_file\<close>, \<^verbatim>\<open>run_shell\<close> and,
  when a researcher was given, \<^verbatim>\<open>call_researcher\<close>.
\<close>

definition coder_agent :: "env \<Rightarrow> multi_agent \<Rightarrow> world tool_chat_agent" where
  "coder_agent env ma =
     \<lparr>client = create env,
      tools = [''write_file'', ''run_shell''] @
              (if enable_researcher ma then [''call_researcher''] else []),
      tool_handlers =
        (\<lambda>name. if name = ''write_file'' then Some (write_file_execute env (workdir ma))
                 else if name = ''run_shell'' then Some (run_shell_execute env (workdir ma))
                 else if name = ''call_researcher'' \<and> enable_researcher ma
                   then Some (researcher_execute env ma)
                 else None),
      max_steps = coder_max_steps\<rparr>"

definition CODER_RESEARCHER_INSTRUCTIONS :: string where
  "CODER_RESEARCHER_INSTRUCTIONS =
     ''\<newline>- If a library detail is unclear, ask the researcher about that specific library before deviating.\<newline>- You may call call_researcher for API details. Include the library name(s) you need in the query.''"

text \<open>
  Lines 104--107: \<^verbatim>\<open>Path(output_path_raw) if output_path_raw else self.solver_path\<close>,
  made absolute against the directory of the current solver path.
\<close>

definition coder_target :: "env \<Rightarrow> json option \<Rightarrow> pypath \<Rightarrow> exn + pypath" where
  "coder_target env output_path_raw solver_path =
     (case (if present output_path_raw then
              (case output_path_raw of
                 Some (JStr s) \<Rightarrow> Inr (Path s)
               | Some v \<Rightarrow>
                   Inl (Exn TypeError
                     (''expected str, bytes or os.PathLike object, not '' @ py_type_name v))
               | None \<Rightarrow> Inr solver_path)
            else Inr solver_path) of
        Inl e \<Rightarrow> Inl e
      | Inr target \<Rightarrow>
          if is_absolute target then Inr target
          else Inr (PyPath True (resolve env (joinpath (parent solver_path) target))))"

text \<open>
  \<^verbatim>\<open>CoderTool.execute\<close> (lines 94--131).  Only the decoding of the arguments is inside a
  \<^verbatim>\<open>try\<close>, and only \<^verbatim>\<open>JSONDecodeError\<close> is caught there.
\<close>

definition coder_execute :: "env \<Rightarrow> multi_agent \<Rightarrow> tool_call \<Rightarrow> int \<Rightarrow> (string, world) io" where
  "coder_execute env ma tool_call step_num w =
     (case json_loads env (Some (or_braces (tc_arguments tool_call))) of
        Inl exc \<Rightarrow>
          if exn_cls exc = JSONDecodeError then
            (Inr (''Error: Invalid JSON in call_coder arguments. '' @ exn_msg exc @
                  ''\<newline>\<newline>Make sure 'approach' is provided as a properly escaped string.''), w)
          else (Inl exc, w)
      | Inr (JObj args) \<Rightarrow>
          (case stripped_field (map_of args ''approach'') of
             Inl e \<Rightarrow> (Inl e, w)
           | Inr approach \<Rightarrow>
               if approach = [] then
                 (Inr ''Error: 'approach' parameter is required for call_coder.\<newline>\<newline>Please provide a clear implementation strategy describing:\<newline>- Which algorithm/library to use\<newline>- Key implementation details\<newline>- Expected input/output format'',
                  w)
               else
                 (case coder_target env (map_of args ''output_path'') (coder_solver_path w) of
                    Inl e \<Rightarrow> (Inl e, w)
                  | Inr target \<Rightarrow>
                      (case mkdir_parents (resolve env (parent target)) (files w) of
                         (Some e, fls) \<Rightarrow> (Inl e, w\<lparr>files := fls\<rparr>)
                       | (None, fls) \<Rightarrow>
                           (case run (coder_agent env ma)
                                   (format env CODER_PROMPT_BASE
                                      [(''solver_path'', rel_path env (workdir ma) target),
                                       (''task_name'', task ma),
                                       (''task_description'',
                                          or_default (task_description ma)
                                            ''(no description provided)''),
                                       (''approach'', approach),
                                       (''packages'',
                                          or_default (join '', '' (packages ma)) ''(none)''),
                                       (''python_cmd'', python_cmd ma),
                                       (''reference_text'',
                                          or_default (reference_text ma) ''(reference unavailable)''),
                                       (''validation_text'',
                                          or_default (validation_text ma)
                                            ''(validation unavailable)''),
                                       (''researcher_instructions'',
                                          if enable_researcher ma
                                          then CODER_RESEARCHER_INSTRUCTIONS else [])])
                                   step_num None
                                   (w\<lparr>files := fls, coder_solver_path := target\<rparr>) of
                              (Inl e, rounds, messages, w2) \<Rightarrow> (Inl e, w2)
                            | (Inr summary, rounds, messages, w2) \<Rightarrow>
                                (Inr (''Coder finished. solver_path='' @
                                      rel_path env (workdir ma) target @ '' exists='' @
                                      str_bool (exists env target (files w2)) @ ''. Notes: '' @
                                      summary @
                                      (if exists env target (files w2) then []
                                       else ''\<newline>\<newline>WARNING: The solver file was not created. The coder may have encountered an error or didn't use write_file.'')),
                                 w2)))))
      | Inr other \<Rightarrow> (Inl (no_attribute other ''get''), w))"

section \<open>TestGenerator (test\_generator.py)\<close>

text \<open>
  The nested agent of the test generator (lines 57--68): the same \<^verbatim>\<open>write_file\<close> and
  \<^verbatim>\<open>run_shell\<close> tools the coder has, on the same working directory.
\<close>

definition test_generator_agent :: "env \<Rightarrow> multi_agent \<Rightarrow> world tool_chat_agent" where
  "test_generator_agent env ma =
     \<lparr>client = create env,
      tools = [''write_file'', ''run_shell''],
      tool_handlers =
        (\<lambda>name. if name = ''write_file'' then Some (write_file_execute env (workdir ma))
                 else if name = ''run_shell'' then Some (run_shell_execute env (workdir ma))
                 else None),
      max_steps = test_generator_max_steps\<rparr>"

text \<open>\<^verbatim>\<open>(parsed.get("directions") or "").strip()\<close>\<close>

definition directions_field :: "json option \<Rightarrow> exn + string" where
  "directions_field v =
     (if \<not> present v then Inr []
      else (case v of
              Some (JStr s) \<Rightarrow> Inr (strip s)
            | Some x \<Rightarrow> Inl (no_attribute x ''strip'')
            | None \<Rightarrow> Inr []))"

text \<open>
  \<^verbatim>\<open>TestGenerator.execute\<close> (lines 76--105).  The transcript \<^verbatim>\<open>self.history\<close> is
  handed to the nested run, which appends to it in place.
\<close>

definition test_generator_execute ::
  "env \<Rightarrow> multi_agent \<Rightarrow> tool_call \<Rightarrow> int \<Rightarrow> (string, world) io" where
  "test_generator_execute env ma tool_call step_num w =
     (case json_loads env (Some (or_braces (tc_arguments tool_call))) of
        Inl exc \<Rightarrow>
          if exn_cls exc = JSONDecodeError then
            (Inr (''Error: Invalid JSON in call_testgen arguments. '' @ exn_msg exc @
                  ''\<newline>\<newline>Make sure solver_path is provided as a string.''), w)
          else (Inl exc, w)
      | Inr (JObj parsed) \<Rightarrow>
          (case directions_field (map_of parsed ''directions'') of
             Inl e \<Rightarrow> (Inl e, w)
           | Inr directions \<Rightarrow>
               (case map_of parsed ''solver_path'' of
                  Some (JStr solver_path_arg) \<Rightarrow>
                    if strip solver_path_arg = [] then
                      (Inr (''Error: solver_path is required for call_testgen.\<newline>\<newline>Received: '' @
                            py_repr env (JObj parsed) @
                            ''\<newline>\<newline>Please provide solver_path as a non-empty string.''), w)
                    else
                      (let target =
                             (if is_absolute (Path solver_path_arg) then Path solver_path_arg
                              else PyPath True
                                     (resolve env (joinpath (workdir ma) (Path solver_path_arg))))
                       in case run (test_generator_agent env ma)
                                 (format env TEST_GEN_PROMPT
                                    [(''task_name'', task ma),
                                     (''task_description'',
                                        or_default (task_description ma)
                                          ''(no description provided)''),
                                     (''python_cmd'', python_cmd ma),
                                     (''solver_path'', rel_path env (workdir ma) target),
                                     (''num_test_problems'', str_int num_test_problems),
                                     (''directions'',
                                        or_default directions
                                          ''Focus on realistic, scaling benchmarks.''),
                                     (''reference_text'',
                                        or_default (reference_text ma) ''(reference unavailable)''),
                                     (''validation_text'',
                                        or_default (validation_text ma)
                                          ''(validation unavailable)'')])
                                 step_num (Some (history w))
                                 (w\<lparr>test_solver_path := target\<rparr>) of
                            (Inl e, rounds, messages, w2) \<Rightarrow> (Inl e, w2\<lparr>history := messages\<rparr>)
                          | (Inr final_text, rounds, messages, w2) \<Rightarrow>
                              (Inr (or_default (strip final_text) ''No summary produced.''),
                               w2\<lparr>history := messages\<rparr>))
                | other \<Rightarrow>
                    (Inr (''Error: solver_path is required for call_testgen.\<newline>\<newline>Received: '' @
                          py_repr env (JObj parsed) @
                          ''\<newline>\<newline>Please provide solver_path as a non-empty string.''), w)))
      | Inr other \<Rightarrow> (Inl (no_attribute other ''get''), w))"

section \<open>The coordinator (orchestrator.py)\<close>

text \<open>
  \<^verbatim>\<open>_has_top_level_solve\<close> (lines 340--355): the completion check.  It yields the pair
  \<^verbatim>\<open>(ok, err_msg)\<close>, or the exception of the load when that is outside
  \<^verbatim>\<open>Exception\<close>.
\<close>

definition has_top_level_solve :: "env \<Rightarrow> pypath \<Rightarrow> pypath \<Rightarrow> fs \<Rightarrow> exn + bool \<times> string" where
  "has_top_level_solve env wd path fls =
     (if \<not> exists env path fls then
        Inr (False, ''Solver not found at '' @ rel_path env wd path @
                    ''.\<newline>\<newline>The file does not exist yet. Use call_coder to create it first.'')
      else
        (case exec_module env (resolve env path) fls of
           LoadRaises exc \<Rightarrow>
             if exn_cls exc = ImportError then
               Inr (False, ''Failed to import solver due to missing dependency: '' @ exn_msg exc @
                           ''\<newline>\<newline>The solver imports a module that cannot be found. Common issues:\<newline>- Importing from a file that doesn't exist (e.g., 'from solver import ...' in reference_impl.py)\<newline>- Missing package installation\<newline>- Circular import\<newline>\<newline>Check that all files are self-contained and don't have circular dependencies.'')
             else if is_Exception (exn_cls exc) then
               Inr (False, ''Failed to import solver: '' @ exn_msg exc @
                           ''\<newline>\<newline>There is a syntax error or runtime error in the solver code. Use call_coder to fix it.'')
             else Inl exc
         | Loaded callable \<Rightarrow>
             if callable then Inr (True, [])
             else
               Inr (False, ''Solver must export a module-level callable solve(problem).\<newline>\<newline>The solver file exists but doesn't have a callable 'solve' function at module level.\<newline>\<newline>If you use a Solver class, add this line at the end: solve = Solver().solve'')))"

text \<open>
  What the dispatch of one tool call (lines 310--372) ends in: the content of the tool
  message, the terminal success of \<^verbatim>\<open>indicate_completion\<close> (with the content of the
  tool message it appends before it returns the target), or an exception.
\<close>

datatype outcome = Content string | Done string pypath | Raised exn

definition lift :: "(exn + string) \<times> world \<Rightarrow> outcome \<times> world" where
  "lift r = (case r of (Inl e, w) \<Rightarrow> (Raised e, w) | (Inr content, w) \<Rightarrow> (Content content, w))"

definition dispatch_call :: "env \<Rightarrow> multi_agent \<Rightarrow> int \<Rightarrow> tool_call \<Rightarrow> world \<Rightarrow> outcome \<times> world" where
  "dispatch_call env ma step_num tool_call w =
     (if tc_name tool_call = ''write_file'' then
        lift (write_file_execute env (workdir ma) tool_call step_num w)
      else if tc_name tool_call = ''run_shell'' then
        lift (run_shell_execute env (workdir ma) tool_call step_num w)
      else if tc_name tool_call = ''call_researcher'' then
        (if \<not> enable_researcher ma
         then (Content ''Error: Researcher not available in this configuration'', w)
         else lift (researcher_execute env ma tool_call step_num w))
      else if tc_name tool_call = ''call_coder'' then
        lift (coder_execute env ma tool_call step_num w)
      else if tc_name tool_call = ''call_testgen'' then
        (if \<not> enable_tester ma
         then (Content ''Error: Test generator not available in this configuration'', w)
         else lift (test_generator_execute env ma tool_call step_num w))
      else if tc_name tool_call = ''indicate_completion'' then
        (case has_top_level_solve env (workdir ma) (coder_solver_path w) (files w) of
           Inl e \<Rightarrow> (Raised e, w)
         | Inr (ok, err_msg) \<Rightarrow>
             if ok then
               (Done (''Solver ready at '' @ rel_path env (workdir ma) (coder_solver_path w) @
                      ''. Completing run.'')
                  (coder_solver_path w), w)
             else
               (Content (''Cannot complete: '' @ err_msg @
                         ''\<newline>\<newline>Fix the issue before calling indicate_completion again.''), w))
      else (Content (''Unknown tool: '' @ tc_name tool_call), w))"

text \<open>
  The loop \<^verbatim>\<open>for tool_call in message.tool_calls\<close> (lines 276--394).  It ends the step
  (\<open>Continue\<close>), returns the target from \<^verbatim>\<open>run\<close>, or is left by an exception.
\<close>

datatype step_end = Continue | Return pypath | Raise exn

fun dispatch_calls ::
  "env \<Rightarrow> multi_agent \<Rightarrow> int \<Rightarrow> tool_call list \<Rightarrow> message list \<Rightarrow> world
    \<Rightarrow> step_end \<times> message list \<times> world" where
  "dispatch_calls env ma step_num [] messages w = (Continue, messages, w)"
| "dispatch_calls env ma step_num (tool_call # rest) messages w =
     (case dispatch_call env ma step_num tool_call w of
        (Raised e, w') \<Rightarrow> (Raise e, messages, w')
      | (Done content target, w') \<Rightarrow>
          (Return target, messages @ [ToolReply (tc_id tool_call) content], w')
      | (Content content, w') \<Rightarrow>
          dispatch_calls env ma step_num rest
            (messages @ [ToolReply (tc_id tool_call) content]) w')"

text \<open>The guidance message of lines 203--218 and the test that removes the old ones.\<close>

definition is_budget_note :: "message \<Rightarrow> bool" where
  "is_budget_note m =
     (case m of
        ChatText Developer text \<Rightarrow> prefix ''Tool calls remaining:'' text
      | _ \<Rightarrow> False)"

definition budget_note :: "int \<Rightarrow> message" where
  "budget_note remaining =
     ChatText Developer
       (''Tool calls remaining: '' @ str_int remaining @
        ''. Emit a tool call now; avoid free-form text.'')"

text \<open>The tools advertised to the coordinator's model (lines 145--156).\<close>

definition coordinator_tools :: "multi_agent \<Rightarrow> string list" where
  "coordinator_tools ma =
     [''run_shell''] @ (if enable_researcher ma then [''call_researcher''] else []) @
     [''call_coder''] @ (if enable_tester ma then [''call_testgen''] else []) @
     [''indicate_completion'']"

text \<open>The corrective instruction for a reply without tool calls (lines 236--264).\<close>

definition error_prompt :: "multi_agent \<Rightarrow> string \<Rightarrow> string" where
  "error_prompt ma text =
     (if prefix ''{'' (strip text) \<and> contains ([CHR 0x22] @ ''tool'' @ [CHR 0x22]) (strip text)
      then ''ERROR: Plain JSON is not a valid tool call.\<newline>\<newline>You wrote:\<newline>'' @
           take 200 (strip text) @ ''\<newline>\<newline>''
      else []) @
     ''ERROR: You must emit real tool calls using the available tools.\<newline>\<newline>Available tools:\<newline>'' @
     join ''\<newline>''
       ((if enable_researcher ma
         then [''- call_researcher(query, libraries) - get library/API documentation'']
         else []) @
        [''- call_coder(approach, output_path) - generate/update the solver''] @
        (if enable_tester ma
         then [''- call_testgen(solver_path, directions) - generate tests and run benchmarks'']
         else []) @
        [''- run_shell(cmd, action) - run shell commands for quick checks'',
         ''- indicate_completion() - mark task as complete'']) @
     ''\<newline>\<newline>Do NOT:\<newline>- Paste JSON that looks like a tool call\<newline>- Write code directly in your response\<newline>- Use apply_patch, tee, or cat > to edit files (use call_coder'' @
     (if enable_tester ma then '' or call_testgen'' else []) @
     '' instead)\<newline>\<newline>You must invoke the functions directly using the tool call mechanism.''"

text \<open>
  How \<^verbatim>\<open>MultiAgent.run\<close> ends: by an exception, by the early return of the completed
  target, or at line 410 after the last step, with the solver path when it exists.
\<close>

datatype run_end = RunRaised exn | Completed pypath | MaxSteps "pypath option"

text \<open>
  The loop \<^verbatim>\<open>for step_num in range(1, self.max_steps + 1)\<close> (lines 201--405), with the
  rounds it made, the transcript and the world it ends in.
\<close>

fun coordinator_steps ::
  "env \<Rightarrow> multi_agent \<Rightarrow> int list \<Rightarrow> message list \<Rightarrow> world
    \<Rightarrow> run_end \<times> round list \<times> message list \<times> world" where
  "coordinator_steps env ma [] messages w =
     (MaxSteps (if exists env (coder_solver_path w) (files w)
                then Some (coder_solver_path w) else None),
      [], messages, w)"
| "coordinator_steps env ma (step_num # rest) messages w =
     (let messages1 = filter (\<lambda>m. \<not> is_budget_note m) messages @
                      [budget_note (agent_max_steps ma - step_num + 1)]
      in case create env (Some (coordinator_tools ma)) messages1 w of
           (Inl e, w1) \<Rightarrow> (RunRaised e, [(messages1, Inl e)], messages1, w1)
         | (Inr message, w1) \<Rightarrow>
             if calls_of message = [] then
               (case coordinator_steps env ma rest
                       (messages1 @
                        [ChatText Assistant
                           (or_default (content_or_empty message) ''No content produced.''),
                         ChatText User
                           (error_prompt ma
                              (or_default (content_or_empty message) ''No content produced.''))])
                       w1 of
                  (end, rounds, messages3, w3) \<Rightarrow>
                    (end, (messages1, Inr message) # rounds, messages3, w3))
             else
               (case dispatch_calls env ma step_num (calls_of message)
                       (messages1 @ [AssistantCalls (calls_of message)]) w1 of
                  (Raise e, messages2, w2) \<Rightarrow>
                    (RunRaised e, [(messages1, Inr message)], messages2, w2)
                | (Return target, messages2, w2) \<Rightarrow>
                    (Completed target, [(messages1, Inr message)], messages2, w2)
                | (Continue, messages2, w2) \<Rightarrow>
                    (case coordinator_steps env ma rest messages2 w2 of
                       (end, rounds, messages3, w3) \<Rightarrow>
                         (end, (messages1, Inr message) # rounds, messages3, w3))))"

text \<open>
  \<^verbatim>\<open>MultiAgent.run\<close> from line 143 on: the transcript starts with the coordinator prompt.
\<close>

definition multi_agent_run ::
  "env \<Rightarrow> multi_agent \<Rightarrow> world \<Rightarrow> run_end \<times> round list \<times> message list \<times> world" where
  "multi_agent_run env ma w =
     coordinator_steps env ma [1..agent_max_steps ma] [ChatText Developer (system_prompt ma)] w"

section \<open>Properties of transcripts\<close>

text \<open>
  \<open>answers tcs replies\<close>: the messages are tool messages, one per call and in the order
  of the calls, each with the \<^verbatim>\<open>tool_call_id\<close> of its call.
\<close>

definition answers :: "tool_call list \<Rightarrow> message list \<Rightarrow> bool" where
  "answers tcs replies =
     list_all2 (\<lambda>tc m. case m of ToolReply i content \<Rightarrow> i = tc_id tc | _ \<Rightarrow> False) tcs replies"

text \<open>
  \<open>answered_turn r added\<close>: what the round's assistant turn put on the transcript is the
  assistant message with its calls followed by exactly their tool messages.
\<close>

definition answered_turn :: "round \<Rightarrow> message list \<Rightarrow> bool" where
  "answered_turn r added =
     (case snd r of
        Inl e \<Rightarrow> False
      | Inr message \<Rightarrow>
          (case added of
             AssistantCalls tcs # replies \<Rightarrow> tcs = calls_of message \<and> answers tcs replies
           | _ \<Rightarrow> False))"

text \<open>\<open>answered_with_calls r\<close>: the request of the round came back with tool calls.\<close>

definition answered_with_calls :: "round \<Rightarrow> bool" where
  "answered_with_calls r = (case snd r of Inl e \<Rightarrow> False | Inr message \<Rightarrow> calls_of message \<noteq> [])"


text \<open>The number of guidance messages in a transcript.\<close>

definition budget_notes :: "message list \<Rightarrow> nat" where
  "budget_notes messages = length (filter is_budget_note messages)"

text \<open>
  The resolved target of a \<^verbatim>\<open>write_file\<close> call, as lines 159 and 180--184 of
  tool\_interface.py compute it, when the arguments are an object with a text
  \<^verbatim>\<open>path\<close>; and whether a resolved path lies in a working directory, which is the test
  \<^verbatim>\<open>relative_to\<close> makes.
\<close>

definition write_file_target :: "env \<Rightarrow> pypath \<Rightarrow> tool_call \<Rightarrow> path option" where
  "write_file_target env wd tool_call =
     (case json_loads env (tc_arguments tool_call) of
        Inr (JObj args) \<Rightarrow>
          (case map_of args ''path'' of
             Some (JStr path) \<Rightarrow>
               Some (resolve env (if is_absolute (Path path) then Path path
                                  else joinpath wd (Path path)))
           | _ \<Rightarrow> None)
      | _ \<Rightarrow> None)"

definition inside :: "pypath \<Rightarrow> path \<Rightarrow> bool" where
  "inside wd target = (is_absolute wd \<and> prefix (parts wd) target)"

text \<open>
  The resolved target of the \<^verbatim>\<open>write_file\<close> custom command of a
  \<^verbatim>\<open>ShellInterface\<close> (lines 87--91 of shell\_interface.py).
\<close>

definition shell_write_target :: "env \<Rightarrow> path \<Rightarrow> string \<Rightarrow> path" where
  "shell_write_target env cwd arg =
     resolve env (if is_absolute (Path arg) then Path arg
                  else joinpath (PyPath True cwd) (Path arg))"

text \<open>
  What a step of the coordinator loop puts on the transcript after its request.  After a
  response without tool calls: the text as an assistant message and the corrective
  instruction (lines 234--271).  After a response with tool calls, when the step runs to
  its end: an answered turn.  At the step where \<^verbatim>\<open>indicate_completion\<close> succeeds: the
  assistant message and the tool messages of the calls up to and including that call.
\<close>

definition coordinator_turn :: "multi_agent \<Rightarrow> round \<Rightarrow> message list \<Rightarrow> bool" where
  "coordinator_turn ma r added =
     (case snd r of
        Inl e \<Rightarrow> False
      | Inr message \<Rightarrow>
          if calls_of message = [] then
            added =
              [ChatText Assistant (or_default (content_or_empty message) ''No content produced.''),
               ChatText User
                 (error_prompt ma (or_default (content_or_empty message) ''No content produced.''))]
          else answered_turn r added)"

definition completed_turn :: "round \<Rightarrow> message list \<Rightarrow> bool" where
  "completed_turn r added =
     (case snd r of
        Inl e \<Rightarrow> False
      | Inr message \<Rightarrow>
          (case added of
             AssistantCalls tcs # replies \<Rightarrow>
               tcs = calls_of message \<and> replies \<noteq> [] \<and> length replies \<le> length tcs \<and>
               answers (take (length replies) tcs) replies \<and>
               tc_name (tcs ! (length replies - 1)) = ''indicate_completion''
           | _ \<Rightarrow> False))"

definition final_turn :: "multi_agent \<Rightarrow> run_end \<Rightarrow> round \<Rightarrow> message list \<Rightarrow> bool" where
  "final_turn ma e r added =
     (case e of
        MaxSteps p \<Rightarrow> coordinator_turn ma r added
      | Completed target \<Rightarrow> completed_turn r added
      | RunRaised exc \<Rightarrow> list_all (\<lambda>m. \<not> is_budget_note m) added)"

text \<open>
  \<open>spares env wd p tc\<close>: the tool call is not a \<^verbatim>\<open>write_file\<close> call whose resolved
  target is the path \<open>p\<close> or lies below it.
\<close>

definition spares :: "env \<Rightarrow> pypath \<Rightarrow> path \<Rightarrow> tool_call \<Rightarrow> bool" where
  "spares env wd p tc =
     (tc_name tc = ''write_file'' \<longrightarrow>
        (case write_file_target env wd tc of None \<Rightarrow> True | Some t \<Rightarrow> \<not> prefix p t))"

section \<open>An example run\<close>

text \<open>
  A concrete setting in which the theorems below are instantiated: the working directory
  \<^verbatim>\<open>/w\<close>, a decoder that knows a handful of argument texts, a resolver for a file
  system without symbolic links, and a module loader that reads the first words of the
  file.
\<close>

fun normalize :: "path \<Rightarrow> string list \<Rightarrow> path" where
  "normalize acc [] = acc"
| "normalize acc (c # cs) =
     (if c = ''..'' then normalize (butlast acc) cs else normalize (acc @ [c]) cs)"

definition lexical_resolve :: "path \<Rightarrow> pypath \<Rightarrow> path" where
  "lexical_resolve cwd p = normalize [] ((if is_absolute p then [] else cwd) @ parts p)"

definition example_decode :: "string \<Rightarrow> string + json" where
  \<open>example_decode s =
     (case map_of
        [(''[1]'', JArr [JNum 1]),
         (''{"cmd": "ls", "action": "list files"}'',
          JObj [(''cmd'', JStr ''ls''), (''action'', JStr ''list files'')]),
         (''{"path": "results/tsp/solver.py", "content": "pass", "action": "simplify"}'',
          JObj [(''path'', JStr ''results/tsp/solver.py''), (''content'', JStr ''pass''),
                (''action'', JStr ''simplify'')]),
         (''{"path": "harness.py", "content": "import solver", "action": "create harness"}'',
          JObj [(''path'', JStr ''harness.py''), (''content'', JStr ''import solver''),
                (''action'', JStr ''create harness'')]),
         (''{"path": "../etc/passwd", "content": "root", "action": "escape"}'',
          JObj [(''path'', JStr ''../etc/passwd''), (''content'', JStr ''root''),
                (''action'', JStr ''escape'')]),
         (''{"path": "results", "content": "x", "action": "overwrite a directory"}'',
          JObj [(''path'', JStr ''results''), (''content'', JStr ''x''),
                (''action'', JStr ''overwrite a directory'')]),
         (''{"solver_path": "results/tsp/solver.py"}'',
          JObj [(''solver_path'', JStr ''results/tsp/solver.py'')]),
         (''{"query": "fast sorting"}'', JObj [(''query'', JStr ''fast sorting'')]),
         (''{"approach": "use numpy"}'', JObj [(''approach'', JStr ''use numpy'')])] s of
        Some v \<Rightarrow> Inr v
      | None \<Rightarrow> Inl ''Expecting value: line 1 column 1 (char 0)'')\<close>

definition example_exec_module :: "path \<Rightarrow> fs \<Rightarrow> load_outcome" where
  "example_exec_module p fls =
     (case fls p of
        Some (File text) \<Rightarrow>
          if prefix ''import missing'' text
          then LoadRaises (Exn ImportError ''No module named missing'')
          else if prefix ''raise'' text then LoadRaises (Exn RuntimeError ''boom'')
          else Loaded (prefix ''def solve'' text)
      | _ \<Rightarrow> LoadRaises (Exn OSError ''cannot read the module file''))"

text \<open>The remote model answers the n-th request with the n-th response of a script.\<close>

definition plain :: "string \<Rightarrow> response" where
  "plain text = \<lparr>r_content = Some text, r_tool_calls = None\<rparr>"

definition calling :: "tool_call list \<Rightarrow> response" where
  "calling tcs = \<lparr>r_content = None, r_tool_calls = Some tcs\<rparr>"

definition example_env :: "response list \<Rightarrow> proc_result \<Rightarrow> env" where
  "example_env script proc =
     \<lparr>json_decode = example_decode,
      py_repr = (\<lambda>v. ''{...}''),
      resolve = lexical_resolve [''w''],
      completions = (\<lambda>n advertised messages.
                       if n < length script then Inr (script ! n) else Inr (plain ''done'')),
      subprocess_run = (\<lambda>cmd cwd fls. (proc, fls)),
      exec_module = example_exec_module,
      mcp_connect = None,
      mcp_list_tools = Inr [''get-library-docs''],
      mcp_call_tool = (\<lambda>name args. Inr [''docs'']),
      format = (\<lambda>t kwargs. ''prompt'')\<rparr>"

definition example_ma :: multi_agent where
  "example_ma =
     \<lparr>task = ''tsp'', agent_max_steps = 3, enable_researcher = True, enable_tester = True,
      workdir = PyPath True [''w''], task_description = ''shortest tour'',
      python_cmd = ''.venv/bin/python'', packages = [''numpy''], reference_text = [],
      validation_text = [], system_prompt = ''You are a concise coordinator''\<rparr>"

definition example_solver :: pypath where
  "example_solver = PyPath True [''w'', ''results'', ''tsp'', ''solver.py'']"

definition example_dirs :: fs where
  "example_dirs =
     [[''w''] \<mapsto> Dir, [''w'', ''results''] \<mapsto> Dir, [''w'', ''results'', ''tsp''] \<mapsto> Dir]"

definition example_world :: "fs \<Rightarrow> world" where
  "example_world fls =
     \<lparr>files = fls, served = 0, coder_solver_path = example_solver,
      test_solver_path = example_solver, history = []\<rparr>"

text \<open>The example directories with a solver file of the given text.\<close>

definition solver_file :: "string \<Rightarrow> fs" where
  "solver_file text = example_dirs([''w'', ''results'', ''tsp'', ''solver.py''] \<mapsto> File text)"

definition example_call :: "string \<Rightarrow> string \<Rightarrow> string option \<Rightarrow> tool_call" where
  "example_call i name arguments = \<lparr>tc_id = i, tc_name = name, tc_arguments = arguments\<rparr>"

text \<open>
  An agent with a budget of three steps whose model asks for the unregistered tool
  \<^verbatim>\<open>foo\<close> at every request (scenario 1 of the specification).
\<close>

definition unknown_tool_agent :: "unit tool_chat_agent" where
  "unknown_tool_agent =
     \<lparr>client = (\<lambda>advertised messages w.
                  (Inr (calling [example_call ''call_1'' ''foo'' (Some ''{}'')]), w)),
      tools = [''write_file''],
      tool_handlers = (\<lambda>name. None),
      max_steps = 3\<rparr>"

text \<open>
  Two scripts for the coordinator's model: one that asks for the unregistered tool
  \<^verbatim>\<open>foo\<close>, then answers in plain text, then asks for \<^verbatim>\<open>foo\<close> twice in one turn;
  and one whose first turn calls
  \<^verbatim>\<open>indicate_completion\<close> and then \<^verbatim>\<open>run_shell\<close>.
\<close>

definition foo_script :: "response list" where
  "foo_script = [calling [example_call ''call_1'' ''foo'' (Some ''{}'')],
                 plain ''I would rather talk'',
                 calling [example_call ''call_2'' ''foo'' (Some ''{}''),
                          example_call ''call_3'' ''foo'' (Some ''{}'')]]"

definition completion_script :: "response list" where
  \<open>completion_script =
     [calling [example_call ''call_1'' ''indicate_completion'' (Some ''{}''),
               example_call ''call_2'' ''run_shell''
                 (Some ''{"cmd": "ls", "action": "list files"}'')]]\<close>

text \<open>
  A script for the researcher's model that asks for a tool of the provider at each of
  its fifteen steps and then answers the request for a summary with no text.
\<close>

definition lookup_script :: "response list" where
  \<open>lookup_script =
     replicate 15 (calling [example_call ''call_7'' ''get-library-docs'' (Some ''{}'')]) @
     [plain []]\<close>

text \<open>
  A model endpoint that answers the coordinator's first request with a call of the coder
  and fails on every later request, and a documentation provider that cannot be reached.
\<close>

definition failing_env :: env where
  \<open>failing_env =
     (example_env [] TimeoutExpired)
       \<lparr>completions :=
          (\<lambda>n advertised messages.
             if n = 0 then
               Inr (calling [example_call ''call_1'' ''call_coder''
                               (Some ''{"approach": "use numpy"}'')])
             else Inl (Exn OtherException ''Connection error.''))\<rparr>\<close>

definition offline_env :: env where
  "offline_env =
     (example_env [] TimeoutExpired)\<lparr>mcp_connect := Some (Exn OtherException ''connection refused'')\<rparr>"

text \<open>
  A script for the test generator's model: it overwrites the solver with
  \<^verbatim>\<open>write_file\<close> and then reports.  And one that writes the harness instead.
\<close>

definition overwrite_script :: "response list" where
  \<open>overwrite_script =
     [calling [example_call ''call_3'' ''write_file''
                 (Some ''{"path": "results/tsp/solver.py", "content": "pass", "action": "simplify"}'')],
      plain ''All tests pass.'']\<close>

definition harness_script :: "response list" where
  \<open>harness_script =
     [calling [example_call ''call_3'' ''write_file''
                 (Some ''{"path": "harness.py", "content": "import solver", "action": "create harness"}'')],
      plain ''All tests pass.'']\<close>

definition testgen_call :: tool_call where
  \<open>testgen_call =
     example_call ''call_5'' ''call_testgen'' (Some ''{"solver_path": "results/tsp/solver.py"}'')\<close>

section \<open>Facts about the example\<close>

lemma example_rel_path:
  "rel_path (example_env script proc) (PyPath True [''w'']) example_solver = ''results/tsp/solver.py''"
  by (simp add: rel_path_def example_env_def example_solver_def
      lexical_resolve_def relative_to_def as_posix_def)


lemma example_exists:
  "exists (example_env script proc) example_solver (solver_file text)"
  by (simp add: exists_def example_env_def example_solver_def lexical_resolve_def solver_file_def)

lemma example_load:
  "exec_module (example_env script proc) (resolve (example_env script proc) example_solver)
     (solver_file text) =
   (if prefix ''import missing'' text then LoadRaises (Exn ImportError ''No module named missing'')
    else if prefix ''raise'' text then LoadRaises (Exn RuntimeError ''boom'')
    else Loaded (prefix ''def solve'' text))"
  by (simp add: example_env_def example_solver_def lexical_resolve_def solver_file_def
      example_exec_module_def)

section \<open>The bounded tool loop\<close>



lemma unknown_tool_run:
  "run unknown_tool_agent ''go'' 1 None () =
     (Inr [],
      [([ChatText Developer ''go''], Inr (calling [example_call ''call_1'' ''foo'' (Some ''{}'')])),
       ([ChatText Developer ''go'',
         AssistantCalls [example_call ''call_1'' ''foo'' (Some ''{}'')],
         ToolReply ''call_1'' ''Unknown tool: foo''],
        Inr (calling [example_call ''call_1'' ''foo'' (Some ''{}'')])),
       ([ChatText Developer ''go'',
         AssistantCalls [example_call ''call_1'' ''foo'' (Some ''{}'')],
         ToolReply ''call_1'' ''Unknown tool: foo'',
         AssistantCalls [example_call ''call_1'' ''foo'' (Some ''{}'')],
         ToolReply ''call_1'' ''Unknown tool: foo''],
        Inr (calling [example_call ''call_1'' ''foo'' (Some ''{}'')]))],
      [ChatText Developer ''go'',
       AssistantCalls [example_call ''call_1'' ''foo'' (Some ''{}'')],
       ToolReply ''call_1'' ''Unknown tool: foo'',
       AssistantCalls [example_call ''call_1'' ''foo'' (Some ''{}'')],
       ToolReply ''call_1'' ''Unknown tool: foo'',
       AssistantCalls [example_call ''call_1'' ''foo'' (Some ''{}'')],
       ToolReply ''call_1'' ''Unknown tool: foo''],
      ())"
  by (simp add: run_def unknown_tool_agent_def upto.simps calls_of_def calling_def
      example_call_def)


section \<open>Completion gating\<close>





section \<open>Containment of file writes\<close>

lemma mkdir_from_exn: "mkdir_from d cs f = (Some e, f') \<Longrightarrow> exn_cls e = OSError"
  by (induction d cs f rule: mkdir_from.induct) (auto split: option.splits node.splits)

lemma mkdir_parents_exn: "mkdir_parents p f = (Some e, f') \<Longrightarrow> exn_cls e = OSError"
  unfolding mkdir_parents_def by (rule mkdir_from_exn)

lemma write_text_exn: "write_text p t f = (Some e, f') \<Longrightarrow> exn_cls e = OSError"
  by (auto simp: write_text_def split: if_splits)

lemma write_text_ok: "write_text p t f = (None, f') \<Longrightarrow> f' = f(p \<mapsto> File t)"
  by (auto simp: write_text_def split: if_splits)

lemma relative_to_inside:
  "(\<exists>rel. relative_to (PyPath True t) wd = Inr rel) = inside wd t"
  by (auto simp: relative_to_def inside_def)

lemma write_within_outside:
  "\<not> inside wd (resolve env t0) \<Longrightarrow>
   \<exists>e. write_within env wd t0 c w = (Inl e, w) \<and> exn_cls e = ValueError"
  by (auto simp: write_within_def relative_to_def inside_def Let_def)

lemma write_within_raises:
  "write_within env wd t0 c w = (Inl e, w') \<Longrightarrow> is_Exception (exn_cls e)"
  by (auto simp: write_within_def relative_to_def Let_def
      split: if_splits prod.splits option.splits json.splits
      dest!: mkdir_parents_exn write_text_exn)

lemma write_within_success:
  "write_within env wd t0 c w = (Inr text, w') \<Longrightarrow>
   inside wd (resolve env t0) \<and> prefix ''Wrote '' text \<and>
   (\<exists>s. c = JStr s \<and> files w' (resolve env t0) = Some (File s))"
  by (auto simp: write_within_def relative_to_def inside_def Let_def
      split: if_splits prod.splits option.splits json.splits
      dest!: write_text_ok)

lemma write_file_execute_cases:
  "(\<exists>r. write_file_execute env wd tc sn w = (r, w) \<and>
        (\<forall>text. r = Inr text \<longrightarrow> prefix ''Error'' text)) \<or>
   (\<exists>args path c. json_loads env (tc_arguments tc) = Inr (JObj args) \<and>
      map_of args ''path'' = Some (JStr path) \<and> map_of args ''content'' = Some c \<and>
      write_file_execute env wd tc sn w =
        except_Exception
          (write_within env wd
             (if is_absolute (Path path) then Path path else joinpath wd (Path path)) c w)
          (\<lambda>exc. ''Error writing file: '' @ exn_msg exc))"
  by (auto simp: write_file_execute_def present_def
      split: sum.splits json.splits option.splits if_splits)


lemma write_file_execute_target:
  assumes "write_file_target env wd tc = Some t"
  shows "(\<exists>text. write_file_execute env wd tc sn w = (Inr text, w) \<and> prefix ''Error'' text) \<or>
   (\<exists>path c. t = resolve env (if is_absolute (Path path) then Path path else joinpath wd (Path path)) \<and>
      write_file_execute env wd tc sn w =
        except_Exception
          (write_within env wd
             (if is_absolute (Path path) then Path path else joinpath wd (Path path)) c w)
          (\<lambda>exc. ''Error writing file: '' @ exn_msg exc))"
  using assms
  by (auto simp: write_file_execute_def write_file_target_def present_def
      split: sum.splits json.splits option.splits if_splits)

lemma write_file_execute_changes:
  assumes "files (snd (write_file_execute env wd tc sn w)) \<noteq> files w"
  shows "\<exists>t. write_file_target env wd tc = Some t \<and> inside wd t"
proof -
  from write_file_execute_cases[of env wd tc sn w] assms
  obtain args path c where a: "json_loads env (tc_arguments tc) = Inr (JObj args)"
      "map_of args ''path'' = Some (JStr path)"
      "write_file_execute env wd tc sn w =
        except_Exception
          (write_within env wd
             (if is_absolute (Path path) then Path path else joinpath wd (Path path)) c w)
          (\<lambda>exc. ''Error writing file: '' @ exn_msg exc)"
    by auto
  let ?t0 = "if is_absolute (Path path) then Path path else joinpath wd (Path path)"
  have t: "write_file_target env wd tc = Some (resolve env ?t0)"
    using a by (simp add: write_file_target_def)
  have "inside wd (resolve env ?t0)"
  proof (rule ccontr)
    assume "\<not> inside wd (resolve env ?t0)"
    from write_within_outside[OF this, of c w] a(3) assms show False
      by (auto simp: except_Exception_def)
  qed
  with t show ?thesis by simp
qed

lemma write_file_execute_outside:
  assumes "write_file_target env wd tc = Some t" "\<not> inside wd t"
  shows "\<exists>text. write_file_execute env wd tc sn w = (Inr text, w) \<and> prefix ''Error'' text"
proof -
  from write_file_execute_target[OF assms(1), of sn w]
  show ?thesis
  proof
    assume "\<exists>text. write_file_execute env wd tc sn w = (Inr text, w) \<and> prefix ''Error'' text"
    then show ?thesis .
  next
    assume "\<exists>path c. t = resolve env (if is_absolute (Path path) then Path path else joinpath wd (Path path)) \<and>
      write_file_execute env wd tc sn w =
        except_Exception
          (write_within env wd
             (if is_absolute (Path path) then Path path else joinpath wd (Path path)) c w)
          (\<lambda>exc. ''Error writing file: '' @ exn_msg exc)"
    then obtain path c where
      t: "t = resolve env (if is_absolute (Path path) then Path path else joinpath wd (Path path))"
      and x: "write_file_execute env wd tc sn w =
        except_Exception
          (write_within env wd
             (if is_absolute (Path path) then Path path else joinpath wd (Path path)) c w)
          (\<lambda>exc. ''Error writing file: '' @ exn_msg exc)"
      by blast
    from assms(2) t write_within_outside[of wd env _ c w]
    obtain e where "write_within env wd
             (if is_absolute (Path path) then Path path else joinpath wd (Path path)) c w = (Inl e, w)"
        "exn_cls e = ValueError"
      by blast
    with x show ?thesis by (simp add: except_Exception_def)
  qed
qed

lemma wrote_not_error: "prefix ''Wrote '' t \<Longrightarrow> \<not> prefix ''Error'' t"
  by (cases t) auto

lemma write_file_execute_wrote:
  assumes "write_file_execute env wd tc sn w = (Inr text, w')" "prefix ''Wrote '' text"
  shows "\<exists>t c. write_file_target env wd tc = Some t \<and> inside wd t \<and> files w' t = Some (File c)"
proof -
  from write_file_execute_cases[of env wd tc sn w] assms wrote_not_error[OF assms(2)]
  obtain args path c where a: "json_loads env (tc_arguments tc) = Inr (JObj args)"
      "map_of args ''path'' = Some (JStr path)"
      "write_file_execute env wd tc sn w =
        except_Exception
          (write_within env wd
             (if is_absolute (Path path) then Path path else joinpath wd (Path path)) c w)
          (\<lambda>exc. ''Error writing file: '' @ exn_msg exc)"
    by auto
  let ?t0 = "if is_absolute (Path path) then Path path else joinpath wd (Path path)"
  have t: "write_file_target env wd tc = Some (resolve env ?t0)"
    using a by (simp add: write_file_target_def)
  from a(3) assms have "write_within env wd ?t0 c w = (Inr text, w')"
    by (auto simp: except_Exception_def split: prod.splits sum.splits if_splits)
  from write_within_success[OF this] t show ?thesis by auto
qed

lemma handle_write_file_changes:
  "files (snd (handle_write_file env cwd arg content w)) \<noteq> files w \<Longrightarrow>
   prefix cwd (shell_write_target env cwd arg)"
  by (auto simp: handle_write_file_def shell_write_target_def relative_to_def Let_def
      split: if_splits option.splits sum.splits prod.splits)

lemma handle_write_file_outside:
  "arg \<noteq> [] \<Longrightarrow> \<not> prefix cwd (shell_write_target env cwd arg) \<Longrightarrow>
   handle_write_file env cwd arg (Some text) w =
     (Inr (''write_file target must be within the working directory'', 1), w)"
  by (auto simp: handle_write_file_def shell_write_target_def relative_to_def Let_def)

lemma handle_write_file_wrote:
  "handle_write_file env cwd arg content w = (Inr (out, 0), w') \<Longrightarrow>
   prefix cwd (shell_write_target env cwd arg) \<and>
   (\<exists>text. content = Some text \<and> files w' (shell_write_target env cwd arg) = Some (File text))"
  by (auto simp: handle_write_file_def shell_write_target_def relative_to_def Let_def
      split: if_splits option.splits sum.splits prod.splits dest!: write_text_ok)

text \<open>
  Claim C10.  \<^verbatim>\<open>WriteFileTool.execute\<close> changes the file system only when the
  arguments name a target that resolves to a path inside the working directory.  A call
  whose resolved target lies outside leaves the world as it was and returns an error
  text; a call that reports \<^verbatim>\<open>Wrote ...\<close> has written the file at a target inside the
  working directory.  The same holds for the \<^verbatim>\<open>write_file\<close> custom command of
  \<^verbatim>\<open>ShellInterface\<close>: it changes files only for a target inside its working directory,
  refuses a target outside with exit status 1 and no change, and a write it reports with
  exit status 0 stands at a target inside.
\<close>

theorem write_file_contained:
  "(files (snd (write_file_execute env wd tc sn w)) \<noteq> files w \<longrightarrow>
      (\<exists>t. write_file_target env wd tc = Some t \<and> inside wd t)) \<and>
   (write_file_target env wd tc = Some t \<and> \<not> inside wd t \<longrightarrow>
      (\<exists>text. write_file_execute env wd tc sn w = (Inr text, w) \<and> prefix ''Error'' text)) \<and>
   (write_file_execute env wd tc sn w = (Inr out, w') \<and> prefix ''Wrote '' out \<longrightarrow>
      (\<exists>t c. write_file_target env wd tc = Some t \<and> inside wd t \<and>
             files w' t = Some (File c))) \<and>
   (files (snd (handle_write_file env cwd arg content sw)) \<noteq> files sw \<longrightarrow>
      prefix cwd (shell_write_target env cwd arg)) \<and>
   (arg \<noteq> [] \<and> \<not> prefix cwd (shell_write_target env cwd arg) \<longrightarrow>
      handle_write_file env cwd arg (Some payload) sw =
        (Inr (''write_file target must be within the working directory'', 1), sw)) \<and>
   (handle_write_file env cwd arg content sw = (Inr (sout, 0), sw') \<longrightarrow>
      prefix cwd (shell_write_target env cwd arg) \<and>
      (\<exists>text. content = Some text \<and>
              files sw' (shell_write_target env cwd arg) = Some (File text)))"
  using write_file_execute_changes[of env wd tc sn w]
    write_file_execute_outside[of env wd tc t sn w]
    write_file_execute_wrote[of env wd tc sn w out w']
    handle_write_file_changes[of env cwd arg content sw]
    handle_write_file_outside[of arg cwd env payload sw]
    handle_write_file_wrote[of env cwd arg content sw sout sw']
  by blast



lemma example_decode_escape:
  \<open>json_loads (example_env script proc)
     (Some ''{"path": "../etc/passwd", "content": "root", "action": "escape"}'') =
   Inr (JObj [(''path'', JStr ''../etc/passwd''), (''content'', JStr ''root''),
              (''action'', JStr ''escape'')])\<close>
  by (simp add: json_loads_def example_env_def example_decode_def)

lemma example_decode_harness:
  \<open>json_loads (example_env script proc)
     (Some ''{"path": "harness.py", "content": "import solver", "action": "create harness"}'') =
   Inr (JObj [(''path'', JStr ''harness.py''), (''content'', JStr ''import solver''),
              (''action'', JStr ''create harness'')])\<close>
  by (simp add: json_loads_def example_env_def example_decode_def)

lemma example_resolve_escape:
  "resolve (example_env script proc) (joinpath (PyPath True [''w'']) (Path ''../etc/passwd'')) =
     [''etc'', ''passwd'']"
  by (simp add: example_env_def lexical_resolve_def joinpath_def Path_def)

lemma example_resolve_harness:
  "resolve (example_env script proc) (joinpath (PyPath True [''w'']) (Path ''harness.py'')) =
     [''w'', ''harness.py'']"
  by (simp add: example_env_def lexical_resolve_def joinpath_def Path_def)

lemma example_relative:
  "\<not> is_absolute (Path ''../etc/passwd'')" "\<not> is_absolute (Path ''harness.py'')"
  by (simp_all add: Path_def)

lemma str_nat_13: "str_nat (length ''import solver'') = ''13''"
  by code_simp

lemma example_write_escape:
  \<open>write_file_execute (example_env script proc) (PyPath True [''w''])
     (example_call ''call_2'' ''write_file''
        (Some ''{"path": "../etc/passwd", "content": "root", "action": "escape"}''))
     1 w =
   (Inr (''Error writing file: '/etc/passwd' is not in the subpath of '/w'' @ [CHR 0x27]), w)\<close>
  by (simp add: write_file_execute_def example_call_def example_decode_escape present_def
      write_within_def example_resolve_escape relative_to_def except_Exception_def as_posix_def
      example_relative Let_def)

lemma example_write_harness:
  \<open>write_file_execute (example_env script proc) (PyPath True [''w''])
     (example_call ''call_3'' ''write_file''
        (Some ''{"path": "harness.py", "content": "import solver", "action": "create harness"}''))
     1 (example_world example_dirs) =
   (Inr ''Wrote 13 bytes to harness.py'',
    (example_world example_dirs)\<lparr>files := example_dirs([''w'', ''harness.py''] \<mapsto> File ''import solver'')\<rparr>)\<close>
  by (simp add: write_file_execute_def example_call_def example_decode_harness present_def
      write_within_def example_resolve_harness relative_to_def except_Exception_def as_posix_def
      example_relative Let_def parent_def mkdir_parents_def example_world_def example_dirs_def write_text_def
      is_dir_def str_nat_13[simplified])


lemma example_target_escape:
  \<open>write_file_target (example_env script proc) (PyPath True [''w''])
     (example_call ''call_2'' ''write_file''
        (Some ''{"path": "../etc/passwd", "content": "root", "action": "escape"}'')) =
   Some [''etc'', ''passwd'']\<close>
  by (simp add: write_file_target_def example_call_def example_decode_escape example_relative
      example_resolve_escape)

lemma example_target_harness:
  \<open>write_file_target (example_env script proc) (PyPath True [''w''])
     (example_call ''call_3'' ''write_file''
        (Some ''{"path": "harness.py", "content": "import solver", "action": "create harness"}'')) =
   Some [''w'', ''harness.py'']\<close>
  by (simp add: write_file_target_def example_call_def example_decode_harness example_relative
      example_resolve_harness)

lemma example_shell_targets:
  "shell_write_target (example_env script proc) [''w''] ''../etc/passwd'' = [''etc'', ''passwd'']"
  "shell_write_target (example_env script proc) [''w''] ''harness.py'' = [''w'', ''harness.py'']"
  by (simp_all add: shell_write_target_def example_relative example_resolve_escape
      example_resolve_harness)

lemma example_shell_write:
  "handle_write_file (example_env script proc) [''w''] ''harness.py'' (Some ''import solver'')
     (example_world example_dirs) =
   (Inr (''Wrote 13 bytes to harness.py'', 0),
    (example_world example_dirs)\<lparr>files := example_dirs([''w'', ''harness.py''] \<mapsto> File ''import solver'')\<rparr>)"
  by (simp add: handle_write_file_def example_relative example_resolve_harness relative_to_def
      Let_def mkdir_parents_def example_world_def example_dirs_def write_text_def is_dir_def
      as_posix_def str_nat_13[simplified])

theorem write_file_contained_witness:
  \<open>write_file_target (example_env [] TimeoutExpired) (PyPath True [''w''])
     (example_call ''call_2'' ''write_file''
        (Some ''{"path": "../etc/passwd", "content": "root", "action": "escape"}'')) =
     Some [''etc'', ''passwd''] \<and>
   \<not> inside (PyPath True [''w'']) [''etc'', ''passwd''] \<and>
   (\<exists>text. write_file_execute (example_env [] TimeoutExpired) (PyPath True [''w''])
        (example_call ''call_2'' ''write_file''
           (Some ''{"path": "../etc/passwd", "content": "root", "action": "escape"}''))
        1 (example_world example_dirs) = (Inr text, example_world example_dirs) \<and>
      prefix ''Error'' text) \<and>
   write_file_execute (example_env [] TimeoutExpired) (PyPath True [''w''])
     (example_call ''call_3'' ''write_file''
        (Some ''{"path": "harness.py", "content": "import solver", "action": "create harness"}''))
     1 (example_world example_dirs) =
     (Inr ''Wrote 13 bytes to harness.py'',
      (example_world example_dirs)\<lparr>files := example_dirs([''w'', ''harness.py''] \<mapsto> File ''import solver'')\<rparr>) \<and>
   (\<exists>t c. write_file_target (example_env [] TimeoutExpired) (PyPath True [''w''])
        (example_call ''call_3'' ''write_file''
           (Some ''{"path": "harness.py", "content": "import solver", "action": "create harness"}'')) =
        Some t \<and> inside (PyPath True [''w'']) t \<and>
      (example_dirs([''w'', ''harness.py''] \<mapsto> File ''import solver'')) t = Some (File c)) \<and>
   handle_write_file (example_env [] TimeoutExpired) [''w''] ''../etc/passwd'' (Some ''root'')
     (example_world example_dirs) =
     (Inr (''write_file target must be within the working directory'', 1),
      example_world example_dirs) \<and>
   prefix [''w''] (shell_write_target (example_env [] TimeoutExpired) [''w''] ''harness.py'')\<close>
proof -
  let ?env = "example_env [] TimeoutExpired"
  let ?wd = "PyPath True [''w'']"
  let ?w = "example_world example_dirs"
  let ?w' = "(example_world example_dirs)\<lparr>files := example_dirs([''w'', ''harness.py''] \<mapsto> File ''import solver'')\<rparr>"
  have out: "\<not> inside ?wd [''etc'', ''passwd'']" by (simp add: inside_def)
  have a: "''harness.py'' \<noteq> []" "''../etc/passwd'' \<noteq> []"
    "prefix ''Wrote '' ''Wrote 13 bytes to harness.py''"
    "\<not> prefix [''w''] [''etc'', ''passwd'']"
    by simp_all
  note t1 = write_file_contained[where env = ?env and wd = ?wd and sn = 1 and w = ?w
      and t = "[''etc'', ''passwd'']" and cwd = "[''w'']" and arg = "''../etc/passwd''"
      and payload = "''root''" and sw = ?w
      and tc = \<open>example_call ''call_2'' ''write_file''
        (Some ''{"path": "../etc/passwd", "content": "root", "action": "escape"}'')\<close>]
  note t2 = write_file_contained[where env = ?env and wd = ?wd and sn = 1 and w = ?w
      and out = "''Wrote 13 bytes to harness.py''" and w' = ?w'
      and cwd = "[''w'']" and arg = "''harness.py''" and content = "Some ''import solver''"
      and sw = ?w and sout = "''Wrote 13 bytes to harness.py''" and sw' = ?w'
      and tc = \<open>example_call ''call_3'' ''write_file''
        (Some ''{"path": "harness.py", "content": "import solver", "action": "create harness"}'')\<close>]
  from t1 example_target_escape out a example_shell_targets
  have 1: \<open>\<exists>text. write_file_execute ?env ?wd
        (example_call ''call_2'' ''write_file''
           (Some ''{"path": "../etc/passwd", "content": "root", "action": "escape"}''))
        1 ?w = (Inr text, ?w) \<and> prefix ''Error'' text\<close>
    and 3: "handle_write_file ?env [''w''] ''../etc/passwd'' (Some ''root'') ?w =
     (Inr (''write_file target must be within the working directory'', 1), ?w)"
    by auto
  from t2 example_write_harness example_shell_write a
  have 2: \<open>\<exists>t c. write_file_target ?env ?wd
        (example_call ''call_3'' ''write_file''
           (Some ''{"path": "harness.py", "content": "import solver", "action": "create harness"}'')) =
        Some t \<and> inside ?wd t \<and>
      (example_dirs([''w'', ''harness.py''] \<mapsto> File ''import solver'')) t = Some (File c)\<close>
    and 4: "prefix [''w''] (shell_write_target ?env [''w''] ''harness.py'')"
    by auto
  from 1 2 3 4 out example_target_escape example_write_harness show ?thesis by blast
qed

section \<open>The structure of a coordinator run\<close>

lemma dispatch_call_Done:
  "dispatch_call env ma sn tc w = (Done c t, w') \<Longrightarrow> tc_name tc = ''indicate_completion''"
  by (auto simp: dispatch_call_def lift_def split: if_splits prod.splits sum.splits)

lemma answers_Nil [simp]: "answers [] []"
  by (simp add: answers_def)

lemma answers_Cons [simp]:
  "answers (tc # tcs) (ToolReply i c # rs) = (i = tc_id tc \<and> answers tcs rs)"
  by (simp add: answers_def)

lemma answers_length: "answers tcs rs \<Longrightarrow> length rs = length tcs"
  by (simp add: answers_def list_all2_lengthD)

lemma answers_no_notes: "answers tcs rs \<Longrightarrow> list_all (\<lambda>m. \<not> is_budget_note m) rs"
  by (induction tcs rs rule: list_induct2')
     (auto simp: answers_def is_budget_note_def split: message.splits)

lemma dispatch_calls_replies:
  "dispatch_calls env ma sn tcs msgs w = (e, msgs', w') \<Longrightarrow>
   \<exists>replies. msgs' = msgs @ replies \<and> length replies \<le> length tcs \<and>
     answers (take (length replies) tcs) replies \<and>
     (e = Continue \<longrightarrow> length replies = length tcs) \<and>
     (\<forall>target. e = Return target \<longrightarrow>
        replies \<noteq> [] \<and> tc_name (tcs ! (length replies - 1)) = ''indicate_completion'')"
proof (induction tcs arbitrary: msgs w)
  case Nil
  then show ?case by auto
next
  case (Cons tc tcs)
  obtain oc w1 where d: "dispatch_call env ma sn tc w = (oc, w1)"
    by (cases "dispatch_call env ma sn tc w") auto
  show ?case
  proof (cases oc)
    case (Content c)
    with d Cons.prems
    have "dispatch_calls env ma sn tcs (msgs @ [ToolReply (tc_id tc) c]) w1 = (e, msgs', w')"
      by simp
    from Cons.IH[OF this] obtain replies where
      r: "msgs' = (msgs @ [ToolReply (tc_id tc) c]) @ replies" "length replies \<le> length tcs"
        "answers (take (length replies) tcs) replies"
        "e = Continue \<longrightarrow> length replies = length tcs"
        "\<forall>target. e = Return target \<longrightarrow>
           replies \<noteq> [] \<and> tc_name (tcs ! (length replies - 1)) = ''indicate_completion''"
      by blast
    have "\<forall>target. e = Return target \<longrightarrow>
        tc_name ((tc # tcs) ! (length (ToolReply (tc_id tc) c # replies) - 1)) = ''indicate_completion''"
      using r(5) by (cases replies) auto
    with r show ?thesis
      by (intro exI[of _ "ToolReply (tc_id tc) c # replies"]) auto
  next
    case (Done c t)
    with d Cons.prems dispatch_call_Done[of env ma sn tc w c t w1] show ?thesis
      by (intro exI[of _ "[ToolReply (tc_id tc) c]"]) auto
  next
    case (Raised ex)
    with d Cons.prems show ?thesis by (intro exI[of _ "[]"]) auto
  qed
qed

lemma is_budget_note_budget_note [simp]: "is_budget_note (budget_note n)"
  by (simp add: is_budget_note_def budget_note_def)

lemma budget_notes_request [simp]:
  "budget_notes (filter (\<lambda>m. \<not> is_budget_note m) msgs @ [budget_note n]) = 1"
  by (simp add: budget_notes_def)

lemma budget_notes_append_clean:
  "list_all (\<lambda>m. \<not> is_budget_note m) added \<Longrightarrow> budget_notes (msgs @ added) = budget_notes msgs"
  by (simp add: budget_notes_def list_all_iff)

lemma coordinator_turn_no_notes:
  "coordinator_turn ma r added \<Longrightarrow> list_all (\<lambda>m. \<not> is_budget_note m) added"
  by (auto simp: coordinator_turn_def answered_turn_def is_budget_note_def
      split: sum.splits if_splits list.splits message.splits dest: answers_no_notes)

lemma completed_turn_no_notes:
  "completed_turn r added \<Longrightarrow> list_all (\<lambda>m. \<not> is_budget_note m) added"
  by (auto simp: completed_turn_def is_budget_note_def
      split: sum.splits if_splits list.splits message.splits dest: answers_no_notes)

lemma final_turn_no_notes:
  "final_turn ma e r added \<Longrightarrow> list_all (\<lambda>m. \<not> is_budget_note m) added"
  by (auto simp: final_turn_def split: run_end.splits
      dest: coordinator_turn_no_notes completed_turn_no_notes)


lemma coordinator_steps_structure:
  assumes "coordinator_steps env ma steps msgs w = (e, rounds, msgs', w')" "steps \<noteq> []"
  shows "rounds \<noteq> [] \<and> length rounds \<le> length steps \<and>
     fst (hd rounds) =
       filter (\<lambda>m. \<not> is_budget_note m) msgs @ [budget_note (agent_max_steps ma - hd steps + 1)] \<and>
     map (\<lambda>r. last (fst r)) rounds =
       map (\<lambda>s. budget_note (agent_max_steps ma - s + 1)) (take (length rounds) steps) \<and>
     list_all (\<lambda>r. budget_notes (fst r) = 1) rounds \<and>
     successively
       (\<lambda>r r'. \<exists>added. coordinator_turn ma r added \<and>
                  butlast (fst r') = filter (\<lambda>m. \<not> is_budget_note m) (fst r @ added)) rounds \<and>
     (\<exists>added. final_turn ma e (last rounds) added \<and> msgs' = fst (last rounds) @ added)"
  using assms
proof (induction steps arbitrary: msgs w e rounds msgs' w')
  case Nil
  then show ?case by simp
next
  case (Cons s rest)
  define m1 where "m1 = filter (\<lambda>m. \<not> is_budget_note m) msgs @ [budget_note (agent_max_steps ma - s + 1)]"
  obtain r w1 where c: "create env (Some (coordinator_tools ma)) m1 w = (r, w1)"
    by (cases "create env (Some (coordinator_tools ma)) m1 w") auto
  have m1_notes: "budget_notes m1 = 1" and m1_last: "last m1 = budget_note (agent_max_steps ma - s + 1)"
    by (simp_all add: m1_def)
  show ?case
  proof (cases r)
    case (Inl ex)
    with c Cons.prems(1) have "e = RunRaised ex" "rounds = [(m1, Inl ex)]" "msgs' = m1"
      by (auto simp: m1_def Let_def)
    then show ?thesis using m1_notes m1_last
      by (auto simp: final_turn_def m1_def)
  next
    case (Inr message)
    define added where "added =
      [ChatText Assistant (or_default (content_or_empty message) ''No content produced.''),
       ChatText User (error_prompt ma (or_default (content_or_empty message) ''No content produced.''))]"
    let ?r = "(m1, Inr message)"
    have tail: "rounds \<noteq> [] \<and> length rounds \<le> length (s # rest) \<and> fst (hd rounds) = m1 \<and>
      map (\<lambda>r. last (fst r)) rounds =
         map (\<lambda>s. budget_note (agent_max_steps ma - s + 1)) (take (length rounds) (s # rest)) \<and>
      list_all (\<lambda>r. budget_notes (fst r) = 1) rounds \<and>
      successively
         (\<lambda>r r'. \<exists>added. coordinator_turn ma r added \<and>
                    butlast (fst r') = filter (\<lambda>m. \<not> is_budget_note m) (fst r @ added)) rounds \<and>
      (\<exists>added'. final_turn ma e (last rounds) added' \<and> msgs' = fst (last rounds) @ added')"
      if rec: "coordinator_steps env ma rest (m1 @ added2) w2 = (e, rounds2, msgs', w')"
        and rounds: "rounds = ?r # rounds2"
        and turn: "coordinator_turn ma ?r added2"
      for added2 w2 rounds2
    proof (cases "rest = []")
      case True
      with rec have "e = MaxSteps (if exists env (coder_solver_path w2) (files w2)
                        then Some (coder_solver_path w2) else None)"
        "rounds2 = []" "msgs' = m1 @ added2"
        by auto
      with rounds turn m1_notes m1_last show ?thesis
        by (auto simp: final_turn_def)
    next
      case False
      from Cons.IH[OF rec False]
      have ih: "rounds2 \<noteq> []" "length rounds2 \<le> length rest"
        "fst (hd rounds2) =
           filter (\<lambda>m. \<not> is_budget_note m) (m1 @ added2) @
           [budget_note (agent_max_steps ma - hd rest + 1)]"
        "map (\<lambda>r. last (fst r)) rounds2 =
           map (\<lambda>s. budget_note (agent_max_steps ma - s + 1)) (take (length rounds2) rest)"
        "list_all (\<lambda>r. budget_notes (fst r) = 1) rounds2"
        "successively
           (\<lambda>r r'. \<exists>added. coordinator_turn ma r added \<and>
                      butlast (fst r') = filter (\<lambda>m. \<not> is_budget_note m) (fst r @ added)) rounds2"
        "\<exists>added. final_turn ma e (last rounds2) added \<and> msgs' = fst (last rounds2) @ added"
        by blast+
      from ih(1) obtain r2 rs where r2: "rounds2 = r2 # rs" by (cases rounds2) auto
      have link: "\<exists>added. coordinator_turn ma ?r added \<and>
                    butlast (fst r2) = filter (\<lambda>m. \<not> is_budget_note m) (fst ?r @ added)"
      proof (intro exI[of _ added2] conjI turn)
        from ih(3) r2 have "fst r2 = filter (\<lambda>m. \<not> is_budget_note m) (m1 @ added2) @
             [budget_note (agent_max_steps ma - hd rest + 1)]"
          by (simp only: list.sel)
        then show "butlast (fst r2) = filter (\<lambda>m. \<not> is_budget_note m) (fst ?r @ added2)"
          by (simp only: butlast_snoc fst_conv)
      qed
      show ?thesis
        using ih r2 rounds link m1_notes m1_last by simp
    qed
    show ?thesis
    proof (cases "calls_of message = []")
      case True
      obtain rounds2 w3 where
        rec: "coordinator_steps env ma rest (m1 @ added) w1 = (e, rounds2, msgs', w3)"
        and rounds: "rounds = ?r # rounds2"
        using Cons.prems(1) c Inr True
        by (auto simp: m1_def[symmetric] added_def Let_def split: prod.splits)
      from Cons.prems(1) c Inr True rec have "w3 = w'"
        by (auto simp: m1_def[symmetric] added_def Let_def split: prod.splits)
      with rec have rec': "coordinator_steps env ma rest (m1 @ added) w1 = (e, rounds2, msgs', w')"
        by simp
      have turn: "coordinator_turn ma ?r added"
        using True by (simp add: coordinator_turn_def added_def)
      from tail[OF rec' rounds turn] show ?thesis by (simp add: m1_def)
    next
      case False
      obtain se m2 w2 where d: "dispatch_calls env ma s (calls_of message)
          (m1 @ [AssistantCalls (calls_of message)]) w1 = (se, m2, w2)"
        by (cases "dispatch_calls env ma s (calls_of message)
          (m1 @ [AssistantCalls (calls_of message)]) w1") auto
      from dispatch_calls_replies[OF d] obtain replies where
        rep: "m2 = (m1 @ [AssistantCalls (calls_of message)]) @ replies"
          "length replies \<le> length (calls_of message)"
          "answers (take (length replies) (calls_of message)) replies"
          "se = Continue \<longrightarrow> length replies = length (calls_of message)"
          "\<forall>target. se = Return target \<longrightarrow>
             replies \<noteq> [] \<and>
             tc_name (calls_of message ! (length replies - 1)) = ''indicate_completion''"
        by blast
      let ?added = "AssistantCalls (calls_of message) # replies"
      have m2: "m2 = m1 @ ?added" using rep(1) by simp
      have clean: "list_all (\<lambda>m. \<not> is_budget_note m) ?added"
        using answers_no_notes[OF rep(3)] by (simp add: is_budget_note_def)
      show ?thesis
      proof (cases se)
        case Continue
        obtain rounds2 w3 where
          rec: "coordinator_steps env ma rest m2 w2 = (e, rounds2, msgs', w3)"
          and rounds: "rounds = ?r # rounds2"
          using Cons.prems(1) c Inr False d Continue
          by (auto simp: m1_def[symmetric] Let_def split: prod.splits)
        from Cons.prems(1) c Inr False d Continue rec have "w3 = w'"
          by (auto simp: m1_def[symmetric] Let_def split: prod.splits)
        with rec m2 have rec': "coordinator_steps env ma rest (m1 @ ?added) w2 = (e, rounds2, msgs', w')"
          by simp
        have turn: "coordinator_turn ma ?r ?added"
          using False rep(3,4) Continue by (simp add: coordinator_turn_def answered_turn_def)
        from tail[OF rec' rounds turn] show ?thesis by (simp add: m1_def)
      next
        case (Return target)
        with Cons.prems(1) c Inr False d
        have "e = Completed target" "rounds = [?r]" "msgs' = m2"
          by (auto simp: m1_def[symmetric] Let_def)
        moreover have "completed_turn ?r ?added"
          using rep Return by (simp add: completed_turn_def)
        ultimately show ?thesis using m1_notes m1_last m2
          by (auto simp: final_turn_def m1_def)
      next
        case (Raise ex)
        with Cons.prems(1) c Inr False d
        have "e = RunRaised ex" "rounds = [?r]" "msgs' = m2"
          by (auto simp: m1_def[symmetric] Let_def)
        then show ?thesis using m1_notes m1_last m2 clean
          by (auto simp: final_turn_def m1_def)
      qed
    qed
  qed
qed

section \<open>The budget reminder\<close>

lemma is_budget_note_simps [simp]:
  "is_budget_note (ChatText Developer c) = prefix ''Tool calls remaining:'' c"
  "is_budget_note (ChatText User c) = False"
  "is_budget_note (ChatText Assistant c) = False"
  "is_budget_note (AssistantCalls tcs) = False"
  "is_budget_note (ToolReply i c) = False"
  by (simp_all add: is_budget_note_def)

lemma example_run_length:
  "length (fst (snd (multi_agent_run (example_env foo_script TimeoutExpired) example_ma
     (example_world example_dirs)))) = 3"
  by (simp add: multi_agent_run_def example_ma_def upto.simps Let_def create_def example_env_def
      example_world_def foo_script_def calls_of_def calling_def plain_def example_call_def
      dispatch_call_def content_or_empty_def or_default_def split: prod.splits)

text \<open>
  Claim C7.  In a run of the coordinator loop the transcript sent with each request ends
  with the fresh guidance message for the remaining budget
  \<open>max_steps - step_num + 1\<close> and holds exactly one guidance message; from one request
  to the next the loop only appends messages that are not guidance messages and then
  removes every guidance message before it appends the fresh one; what the last step
  appends after its request is free of guidance messages too, so the transcript at every
  point of the loop, and the one the run ends with, holds at most one guidance message.
\<close>

theorem one_budget_note:
  assumes "multi_agent_run env ma w = (e, rounds, messages', w')"
  shows "map (\<lambda>r. last (fst r)) rounds =
           map (\<lambda>step_num. budget_note (agent_max_steps ma - step_num + 1))
             (take (length rounds) [1..agent_max_steps ma]) \<and>
         list_all (\<lambda>r. budget_notes (fst r) = 1) rounds \<and>
         successively
           (\<lambda>r r'. \<exists>added. list_all (\<lambda>m. \<not> is_budget_note m) added \<and>
                      butlast (fst r') = filter (\<lambda>m. \<not> is_budget_note m) (fst r @ added))
           rounds \<and>
         (rounds \<noteq> [] \<longrightarrow>
            (\<exists>added. list_all (\<lambda>m. \<not> is_budget_note m) added \<and>
                     messages' = fst (last rounds) @ added)) \<and>
         budget_notes messages' \<le> 1"
proof (cases "[1..agent_max_steps ma] = []")
  case True
  with assms have "rounds = []" "messages' = [ChatText Developer (system_prompt ma)]"
    by (auto simp: multi_agent_run_def)
  then show ?thesis by (simp add: budget_notes_def)
next
  case False
  from coordinator_steps_structure[OF assms[unfolded multi_agent_run_def] False]
  have s: "rounds \<noteq> []"
    "map (\<lambda>r. last (fst r)) rounds =
       map (\<lambda>s. budget_note (agent_max_steps ma - s + 1)) (take (length rounds) [1..agent_max_steps ma])"
    "list_all (\<lambda>r. budget_notes (fst r) = 1) rounds"
    "successively
       (\<lambda>r r'. \<exists>added. coordinator_turn ma r added \<and>
                  butlast (fst r') = filter (\<lambda>m. \<not> is_budget_note m) (fst r @ added)) rounds"
    "\<exists>added. final_turn ma e (last rounds) added \<and> messages' = fst (last rounds) @ added"
    by blast+
  from s(5) obtain added where a: "final_turn ma e (last rounds) added"
    "messages' = fst (last rounds) @ added"
    by blast
  have clean: "list_all (\<lambda>m. \<not> is_budget_note m) added"
    using a(1) by (rule final_turn_no_notes)
  from s(1,3) have "budget_notes (fst (last rounds)) = 1"
    by (simp add: list_all_iff)
  with a(2) clean have count: "budget_notes messages' \<le> 1"
    by (simp add: budget_notes_append_clean)
  have succ: "successively
           (\<lambda>r r'. \<exists>added. list_all (\<lambda>m. \<not> is_budget_note m) added \<and>
                      butlast (fst r') = filter (\<lambda>m. \<not> is_budget_note m) (fst r @ added))
           rounds"
    using s(4) by (rule successively_mono) (blast dest: coordinator_turn_no_notes)
  from s(2,3) succ a(2) clean count show ?thesis by blast
qed

theorem one_budget_note_witness:
  "length (fst (snd (multi_agent_run (example_env foo_script TimeoutExpired) example_ma
     (example_world example_dirs)))) = 3 \<and>
   map (\<lambda>r. last (fst r))
     (fst (snd (multi_agent_run (example_env foo_script TimeoutExpired) example_ma
        (example_world example_dirs)))) =
     [budget_note 3, budget_note 2, budget_note 1] \<and>
   list_all (\<lambda>r. budget_notes (fst r) = 1)
     (fst (snd (multi_agent_run (example_env foo_script TimeoutExpired) example_ma
        (example_world example_dirs)))) \<and>
   budget_notes
     (fst (snd (snd (multi_agent_run (example_env foo_script TimeoutExpired) example_ma
        (example_world example_dirs))))) \<le> 1"
proof -
  obtain e rounds msgs' w' where
    r: "multi_agent_run (example_env foo_script TimeoutExpired) example_ma
          (example_world example_dirs) = (e, rounds, msgs', w')"
    by (cases "multi_agent_run (example_env foo_script TimeoutExpired) example_ma
          (example_world example_dirs)") auto
  have n: "agent_max_steps example_ma = 3" by (simp add: example_ma_def)
  have len: "length rounds = 3" using example_run_length r by simp
  from one_budget_note[OF r] len show ?thesis
    by (simp add: r n upto.simps)
qed

section \<open>Tool messages before the next request\<close>

lemma handle_tool_calls_replies:
  "handle_tool_calls handlers sn tcs msgs w = (None, msgs', w') \<Longrightarrow>
   \<exists>replies. msgs' = msgs @ replies \<and> answers tcs replies"
proof (induction tcs arbitrary: msgs w)
  case Nil
  then show ?case by simp
next
  case (Cons tc tcs)
  show ?case
  proof (cases "handlers (tc_name tc)")
    case None
    with Cons.prems
    have "handle_tool_calls handlers sn tcs
            (msgs @ [ToolReply (tc_id tc) (''Unknown tool: '' @ tc_name tc)]) w = (None, msgs', w')"
      by simp
    from Cons.IH[OF this] obtain replies where
      "msgs' = (msgs @ [ToolReply (tc_id tc) (''Unknown tool: '' @ tc_name tc)]) @ replies"
      "answers tcs replies"
      by blast
    then show ?thesis
      by (intro exI[of _ "ToolReply (tc_id tc) (''Unknown tool: '' @ tc_name tc) # replies"]) simp
  next
    case (Some h)
    obtain r w1 where h: "h tc sn w = (r, w1)" by (cases "h tc sn w") auto
    show ?thesis
    proof (cases r)
      case (Inl e)
      with Some h Cons.prems show ?thesis by simp
    next
      case (Inr result)
      with Some h Cons.prems
      have "handle_tool_calls handlers sn tcs (msgs @ [ToolReply (tc_id tc) result]) w1 =
              (None, msgs', w')"
        by simp
      from Cons.IH[OF this] obtain replies where
        "msgs' = (msgs @ [ToolReply (tc_id tc) result]) @ replies" "answers tcs replies"
        by blast
      then show ?thesis
        by (intro exI[of _ "ToolReply (tc_id tc) result # replies"]) simp
    qed
  qed
qed

lemma run_steps_structure:
  "run_steps ag sn steps msgs w = (res, rounds, msgs', w') \<Longrightarrow>
   (rounds = [] \<longrightarrow> msgs' = msgs) \<and>
   (rounds \<noteq> [] \<longrightarrow> fst (hd rounds) = msgs) \<and>
   successively (\<lambda>r r'. \<exists>added. answered_turn r added \<and> fst r' = fst r @ added) rounds \<and>
   (\<forall>text. res = Inr text \<and> rounds \<noteq> [] \<and> answered_with_calls (last rounds) \<longrightarrow>
      (\<exists>added. answered_turn (last rounds) added \<and> msgs' = fst (last rounds) @ added))"
proof (induction steps arbitrary: msgs w res rounds msgs' w')
  case Nil
  then show ?case by simp
next
  case (Cons i rest)
  obtain r w1 where c: "client ag (Some (tools ag)) msgs w = (r, w1)"
    by (cases "client ag (Some (tools ag)) msgs w") auto
  show ?case
  proof (cases r)
    case (Inl e)
    with c Cons.prems show ?thesis by auto
  next
    case (Inr message)
    show ?thesis
    proof (cases "calls_of message = []")
      case True
      with c Inr Cons.prems show ?thesis by (auto simp: answered_with_calls_def)
    next
      case False
      obtain eo m2 w2 where h: "handle_tool_calls (tool_handlers ag) sn (calls_of message)
          (msgs @ [AssistantCalls (calls_of message)]) w1 = (eo, m2, w2)"
        by (cases "handle_tool_calls (tool_handlers ag) sn (calls_of message)
          (msgs @ [AssistantCalls (calls_of message)]) w1") auto
      show ?thesis
      proof (cases eo)
        case (Some e)
        with c Inr False h Cons.prems show ?thesis by auto
      next
        case None
        from handle_tool_calls_replies[OF h[unfolded None]] obtain replies where
          rep: "m2 = (msgs @ [AssistantCalls (calls_of message)]) @ replies"
            "answers (calls_of message) replies"
          by blast
        let ?r = "(msgs, Inr message)"
        let ?added = "AssistantCalls (calls_of message) # replies"
        have turn: "answered_turn ?r ?added" using rep(2) by (simp add: answered_turn_def)
        have m2: "m2 = msgs @ ?added" using rep(1) by simp
        obtain res2 rounds2 m3 w3 where
          rec: "run_steps ag sn rest m2 w2 = (res2, rounds2, m3, w3)"
          by (cases "run_steps ag sn rest m2 w2") auto
        from c Inr False h None rec Cons.prems
        have eq: "res = res2" "rounds = ?r # rounds2" "msgs' = m3" by auto
        from Cons.IH[OF rec]
        have ih: "rounds2 = [] \<longrightarrow> m3 = m2" "rounds2 \<noteq> [] \<longrightarrow> fst (hd rounds2) = m2"
          "successively (\<lambda>r r'. \<exists>added. answered_turn r added \<and> fst r' = fst r @ added) rounds2"
          "\<forall>text. res2 = Inr text \<and> rounds2 \<noteq> [] \<and> answered_with_calls (last rounds2) \<longrightarrow>
             (\<exists>added. answered_turn (last rounds2) added \<and> m3 = fst (last rounds2) @ added)"
          by blast+
        show ?thesis
        proof (cases rounds2)
          case Nil
          with ih(1) eq m2 turn show ?thesis by auto
        next
          case (Cons r2 rs)
          with ih(2) m2 turn
          have "\<exists>added. answered_turn ?r added \<and> fst r2 = fst ?r @ added"
            by (intro exI[of _ ?added]) simp
          with Cons ih eq show ?thesis by simp
        qed
      qed
    qed
  qed
qed

text \<open>
  Claim C3, as amended.  In \<^verbatim>\<open>ToolChatAgent.run\<close> and in the coordinator loop, every
  assistant turn with tool calls that is followed by another model request, or after which
  the loop ends by exhausting its budget, has put on the transcript, right after the
  request it answers, the assistant message with its \<open>k\<close> calls followed by exactly \<open>k\<close>
  tool messages, in the order of the calls and each with the \<^verbatim>\<open>tool_call_id\<close> of its
  call; the next request is that transcript (in the coordinator loop: with the guidance
  messages removed and the fresh one appended).  At the step where
  \<^verbatim>\<open>indicate_completion\<close> succeeds the run returns right after the tool message of that
  call: the calls of the turn up to and including it are answered, the later ones are
  not, and no request follows.  The claim as stated fails there: a turn of two calls
  can end with one tool message.
\<close>

theorem tool_replies_precede_next_request:
  assumes "run ag prompt sn hist w = (res, rounds, msgs', w')"
    and "multi_agent_run env ma cw = (e, crounds, cmsgs', cw')"
  shows "successively (\<lambda>r r'. \<exists>added. answered_turn r added \<and> fst r' = fst r @ added) rounds \<and>
     (\<forall>text. res = Inr text \<and> rounds \<noteq> [] \<and> answered_with_calls (last rounds) \<longrightarrow>
        (\<exists>added. answered_turn (last rounds) added \<and> msgs' = fst (last rounds) @ added)) \<and>
     successively
       (\<lambda>r r'. answered_with_calls r \<longrightarrow>
          (\<exists>added. answered_turn r added \<and>
             butlast (fst r') = filter (\<lambda>m. \<not> is_budget_note m) (fst r @ added))) crounds \<and>
     (\<forall>p. e = MaxSteps p \<and> crounds \<noteq> [] \<and> answered_with_calls (last crounds) \<longrightarrow>
        (\<exists>added. answered_turn (last crounds) added \<and> cmsgs' = fst (last crounds) @ added)) \<and>
     (\<forall>target. e = Completed target \<longrightarrow>
        crounds \<noteq> [] \<and>
        (\<exists>added. completed_turn (last crounds) added \<and> cmsgs' = fst (last crounds) @ added))"
proof -
  from run_steps_structure[OF assms(1)[unfolded run_def]]
  have a: "successively (\<lambda>r r'. \<exists>added. answered_turn r added \<and> fst r' = fst r @ added) rounds"
    "\<forall>text. res = Inr text \<and> rounds \<noteq> [] \<and> answered_with_calls (last rounds) \<longrightarrow>
        (\<exists>added. answered_turn (last rounds) added \<and> msgs' = fst (last rounds) @ added)"
    by blast+
  have turn: "coordinator_turn ma r added \<Longrightarrow> answered_with_calls r \<Longrightarrow> answered_turn r added"
    for r added
    by (auto simp: coordinator_turn_def answered_with_calls_def split: sum.splits if_splits)
  have b: "successively
       (\<lambda>r r'. answered_with_calls r \<longrightarrow>
          (\<exists>added. answered_turn r added \<and>
             butlast (fst r') = filter (\<lambda>m. \<not> is_budget_note m) (fst r @ added))) crounds \<and>
     (\<forall>p. e = MaxSteps p \<and> crounds \<noteq> [] \<and> answered_with_calls (last crounds) \<longrightarrow>
        (\<exists>added. answered_turn (last crounds) added \<and> cmsgs' = fst (last crounds) @ added)) \<and>
     (\<forall>target. e = Completed target \<longrightarrow>
        crounds \<noteq> [] \<and>
        (\<exists>added. completed_turn (last crounds) added \<and> cmsgs' = fst (last crounds) @ added))"
  proof (cases "[1..agent_max_steps ma] = []")
    case True
    with assms(2) have "crounds = []" "\<exists>p. e = MaxSteps p"
      by (auto simp: multi_agent_run_def)
    then show ?thesis by auto
  next
    case False
    from coordinator_steps_structure[OF assms(2)[unfolded multi_agent_run_def] False]
    have s: "crounds \<noteq> []"
      "successively
         (\<lambda>r r'. \<exists>added. coordinator_turn ma r added \<and>
                    butlast (fst r') = filter (\<lambda>m. \<not> is_budget_note m) (fst r @ added)) crounds"
      "\<exists>added. final_turn ma e (last crounds) added \<and> cmsgs' = fst (last crounds) @ added"
      by blast+
    have 1: "successively
       (\<lambda>r r'. answered_with_calls r \<longrightarrow>
          (\<exists>added. answered_turn r added \<and>
             butlast (fst r') = filter (\<lambda>m. \<not> is_budget_note m) (fst r @ added))) crounds"
      using s(2) by (rule successively_mono) (blast intro: turn)
    from s(3) obtain added where f: "final_turn ma e (last crounds) added"
      "cmsgs' = fst (last crounds) @ added"
      by blast
    from f s(1) have 2: "\<forall>p. e = MaxSteps p \<and> crounds \<noteq> [] \<and> answered_with_calls (last crounds) \<longrightarrow>
        (\<exists>added. answered_turn (last crounds) added \<and> cmsgs' = fst (last crounds) @ added)"
      using turn[of "last crounds" added] by (auto simp: final_turn_def)
    from f s(1) have 3: "\<forall>target. e = Completed target \<longrightarrow>
        crounds \<noteq> [] \<and>
        (\<exists>added. completed_turn (last crounds) added \<and> cmsgs' = fst (last crounds) @ added)"
      by (auto simp: final_turn_def)
    from 1 2 3 show ?thesis by blast
  qed
  from a b show ?thesis by blast
qed


lemma example_foo_run:
  "fst (multi_agent_run (example_env foo_script TimeoutExpired) example_ma
          (example_world example_dirs)) = MaxSteps None \<and>
   answered_with_calls
     (last (fst (snd (multi_agent_run (example_env foo_script TimeoutExpired) example_ma
          (example_world example_dirs)))))"
  by (simp add: multi_agent_run_def example_ma_def upto.simps Let_def create_def example_env_def
      example_world_def foo_script_def calls_of_def calling_def plain_def example_call_def
      dispatch_call_def content_or_empty_def or_default_def answered_with_calls_def
      exists_def lexical_resolve_def example_solver_def example_dirs_def
      split: prod.splits)

lemma example_completion_run:
  \<open>multi_agent_run (example_env completion_script TimeoutExpired) example_ma
     (example_world (solver_file ''def solve(problem): return problem'')) =
   (Completed example_solver,
    [([ChatText Developer ''You are a concise coordinator'', budget_note 3],
      Inr (calling [example_call ''call_1'' ''indicate_completion'' (Some ''{}''),
                    example_call ''call_2'' ''run_shell''
                      (Some ''{"cmd": "ls", "action": "list files"}'')]))],
    [ChatText Developer ''You are a concise coordinator'', budget_note 3,
     AssistantCalls [example_call ''call_1'' ''indicate_completion'' (Some ''{}''),
                     example_call ''call_2'' ''run_shell''
                       (Some ''{"cmd": "ls", "action": "list files"}'')],
     ToolReply ''call_1'' ''Solver ready at results/tsp/solver.py. Completing run.''],
    (example_world (solver_file ''def solve(problem): return problem''))\<lparr>served := 1\<rparr>)\<close>
proof -
  have w: "coder_solver_path ((example_world fls)\<lparr>served := n\<rparr>) = example_solver"
    "files ((example_world fls)\<lparr>served := n\<rparr>) = fls"
    "served (example_world fls) = 0" for fls n
    by (simp_all add: example_world_def)
  have m: "workdir example_ma = PyPath True [''w'']" "agent_max_steps example_ma = 3"
    "system_prompt example_ma = ''You are a concise coordinator''"
    by (simp_all add: example_ma_def)
  have c: \<open>completions (example_env completion_script TimeoutExpired) 0 adv msgs =
             Inr (calling [example_call ''call_1'' ''indicate_completion'' (Some ''{}''),
                    example_call ''call_2'' ''run_shell''
                      (Some ''{"cmd": "ls", "action": "list files"}'')])\<close> for adv msgs
    by (simp add: example_env_def completion_script_def)
  show ?thesis
    by (simp add: multi_agent_run_def upto.simps Let_def create_def w m c
        calls_of_def calling_def example_call_def dispatch_call_def
        has_top_level_solve_def example_exists example_load example_rel_path)
qed


text \<open>
  The counterexample to claim C3 as stated: the model answers the first request with the
  calls \<^verbatim>\<open>indicate_completion\<close> and \<^verbatim>\<open>run_shell\<close> while the solver is ready.  The run
  returns the target, and the transcript it leaves holds one tool message for the two
  calls of the turn.
\<close>

theorem completion_leaves_calls_unanswered:
  \<open>fst (multi_agent_run (example_env completion_script TimeoutExpired) example_ma
          (example_world (solver_file ''def solve(problem): return problem''))) =
     Completed example_solver \<and>
   fst (snd (snd (multi_agent_run (example_env completion_script TimeoutExpired) example_ma
          (example_world (solver_file ''def solve(problem): return problem''))))) =
     [ChatText Developer ''You are a concise coordinator'', budget_note 3,
      AssistantCalls [example_call ''call_1'' ''indicate_completion'' (Some ''{}''),
                      example_call ''call_2'' ''run_shell''
                        (Some ''{"cmd": "ls", "action": "list files"}'')],
      ToolReply ''call_1'' ''Solver ready at results/tsp/solver.py. Completing run.'']\<close>
  by (simp add: example_completion_run)

theorem tool_replies_precede_next_request_witness:
  "successively (\<lambda>r r'. \<exists>added. answered_turn r added \<and> fst r' = fst r @ added)
     (fst (snd (run unknown_tool_agent ''go'' 1 None ()))) \<and>
   (\<exists>added. answered_turn (last (fst (snd (run unknown_tool_agent ''go'' 1 None ())))) added \<and>
      fst (snd (snd (run unknown_tool_agent ''go'' 1 None ()))) =
        fst (last (fst (snd (run unknown_tool_agent ''go'' 1 None ())))) @ added) \<and>
   successively
     (\<lambda>r r'. answered_with_calls r \<longrightarrow>
        (\<exists>added. answered_turn r added \<and>
           butlast (fst r') = filter (\<lambda>m. \<not> is_budget_note m) (fst r @ added)))
     (fst (snd (multi_agent_run (example_env foo_script TimeoutExpired) example_ma
        (example_world example_dirs)))) \<and>
   (\<exists>added.
      answered_turn
        (last (fst (snd (multi_agent_run (example_env foo_script TimeoutExpired) example_ma
           (example_world example_dirs))))) added \<and>
      fst (snd (snd (multi_agent_run (example_env foo_script TimeoutExpired) example_ma
         (example_world example_dirs)))) =
        fst (last (fst (snd (multi_agent_run (example_env foo_script TimeoutExpired) example_ma
           (example_world example_dirs))))) @ added) \<and>
   (\<exists>added.
      completed_turn
        (last (fst (snd (multi_agent_run (example_env completion_script TimeoutExpired)
           example_ma (example_world (solver_file ''def solve(problem): return problem''))))))
        added \<and>
      fst (snd (snd (multi_agent_run (example_env completion_script TimeoutExpired)
         example_ma (example_world (solver_file ''def solve(problem): return problem''))))) =
        fst (last (fst (snd (multi_agent_run (example_env completion_script TimeoutExpired)
           example_ma (example_world (solver_file ''def solve(problem): return problem'')))))) @
        added)"
proof -
  obtain res rounds msgs' w' where
    t: "run unknown_tool_agent ''go'' 1 None () = (res, rounds, msgs', w')"
    by (cases "run unknown_tool_agent ''go'' 1 None ()") auto
  obtain e crounds cmsgs' cw' where
    c: "multi_agent_run (example_env foo_script TimeoutExpired) example_ma
          (example_world example_dirs) = (e, crounds, cmsgs', cw')"
    by (cases "multi_agent_run (example_env foo_script TimeoutExpired) example_ma
          (example_world example_dirs)") auto
  obtain e2 crounds2 cmsgs2 cw2 where
    d: "multi_agent_run (example_env completion_script TimeoutExpired) example_ma
          (example_world (solver_file ''def solve(problem): return problem'')) =
        (e2, crounds2, cmsgs2, cw2)"
    by (cases "multi_agent_run (example_env completion_script TimeoutExpired) example_ma
          (example_world (solver_file ''def solve(problem): return problem''))") auto
  from t unknown_tool_run have t': "res = Inr []" "rounds \<noteq> []" "answered_with_calls (last rounds)"
    by (auto simp: answered_with_calls_def calls_of_def calling_def)
  from c example_foo_run have c': "e = MaxSteps None" "answered_with_calls (last crounds)"
    by auto
  from d example_completion_run have d': "e2 = Completed example_solver" by simp
  from tool_replies_precede_next_request[OF t c] t'
  have 1: "successively (\<lambda>r r'. \<exists>added. answered_turn r added \<and> fst r' = fst r @ added) rounds"
    "\<exists>added. answered_turn (last rounds) added \<and> msgs' = fst (last rounds) @ added"
    "successively
     (\<lambda>r r'. answered_with_calls r \<longrightarrow>
        (\<exists>added. answered_turn r added \<and>
           butlast (fst r') = filter (\<lambda>m. \<not> is_budget_note m) (fst r @ added))) crounds"
    by blast+
  have ne: "crounds \<noteq> []" using c example_run_length by auto
  from tool_replies_precede_next_request[OF t c] c' ne
  have 2: "\<exists>added. answered_turn (last crounds) added \<and> cmsgs' = fst (last crounds) @ added"
    by blast
  from tool_replies_precede_next_request[OF t d] d'
  have 3: "\<exists>added. completed_turn (last crounds2) added \<and> cmsgs2 = fst (last crounds2) @ added"
    by blast
  from 1 2 3 show ?thesis by (simp add: t c d)
qed

section \<open>Malformed tool arguments\<close>

lemma json_loads_text:
  "s \<noteq> ''{}'' \<Longrightarrow> json_loads env (Some s) =
     (case json_decode env s of Inl err \<Rightarrow> Inl (Exn JSONDecodeError err) | Inr v \<Rightarrow> Inr v)"
  by (simp add: json_loads_def)

lemma or_braces_text: "s \<noteq> [] \<Longrightarrow> or_braces (Some s) = s"
  by (simp add: or_braces_def)

text \<open>
  Claim C5 fails on the code.  Argument text that is not JSON is answered with a
  diagnostic: \<^verbatim>\<open>call_coder\<close> returns its \<^verbatim>\<open>Invalid JSON\<close> text.  But text that decodes
  to a value that is not an object makes \<^verbatim>\<open>CoderTool.execute\<close> and
  \<^verbatim>\<open>TestGenerator.execute\<close> raise \<^verbatim>\<open>AttributeError\<close> (there is no \<^verbatim>\<open>get\<close> on it), and
  the coordinator's loop over the tool calls is left by that exception; and absent
  argument text makes \<^verbatim>\<open>WriteFileTool.execute\<close> and \<^verbatim>\<open>RunShellTool.execute\<close> raise
  \<^verbatim>\<open>TypeError\<close>.  The theorem states what the code does on these inputs.
\<close>

theorem malformed_arguments:
  "(tc_arguments tc = Some s \<and> s \<noteq> [] \<and> s \<noteq> ''{}'' \<and> json_decode env s = Inl err \<longrightarrow>
      coder_execute env ma tc sn w =
        (Inr (''Error: Invalid JSON in call_coder arguments. '' @ err @
              ''\<newline>\<newline>Make sure 'approach' is provided as a properly escaped string.''), w)) \<and>
   (tc_arguments tc = Some s \<and> s \<noteq> [] \<and> s \<noteq> ''{}'' \<and> json_decode env s = Inr v \<and>
    (\<forall>kvs. v \<noteq> JObj kvs) \<longrightarrow>
      coder_execute env ma tc sn w = (Inl (no_attribute v ''get''), w) \<and>
      test_generator_execute env ma tc sn w = (Inl (no_attribute v ''get''), w) \<and>
      fst (dispatch_calls env ma sn
             (tc\<lparr>tc_name := ''call_coder''\<rparr> # rest) messages w) =
        Raise (no_attribute v ''get'')) \<and>
   (tc_arguments tc = None \<longrightarrow>
      write_file_execute env wd tc sn w =
        (Inl (Exn TypeError ''the JSON object must be str, bytes or bytearray, not NoneType''), w) \<and>
      run_shell_execute env wd tc sn w =
        (Inl (Exn TypeError ''the JSON object must be str, bytes or bytearray, not NoneType''), w))"
proof -
  have 1: "coder_execute env ma tc sn w =
        (Inr (''Error: Invalid JSON in call_coder arguments. '' @ err @
              ''\<newline>\<newline>Make sure 'approach' is provided as a properly escaped string.''), w)"
    if "tc_arguments tc = Some s" "s \<noteq> []" "s \<noteq> ''{}''" "json_decode env s = Inl err"
    using that by (simp add: coder_execute_def or_braces_text json_loads_text)
  have 2: "coder_execute env ma t sn w = (Inl (no_attribute v ''get''), w)"
    "test_generator_execute env ma t sn w = (Inl (no_attribute v ''get''), w)"
    if "tc_arguments t = Some s" "s \<noteq> []" "s \<noteq> ''{}''" "json_decode env s = Inr v"
      "\<forall>kvs. v \<noteq> JObj kvs" for t
    using that
    by (cases v; simp add: coder_execute_def test_generator_execute_def or_braces_text
        json_loads_text)+
  have 3: "fst (dispatch_calls env ma sn (tc\<lparr>tc_name := ''call_coder''\<rparr> # rest) messages w) =
        Raise (no_attribute v ''get'')"
    if "tc_arguments tc = Some s" "s \<noteq> []" "s \<noteq> ''{}''" "json_decode env s = Inr v"
      "\<forall>kvs. v \<noteq> JObj kvs"
    using 2(1)[of "tc\<lparr>tc_name := ''call_coder''\<rparr>"] that
    by (simp add: dispatch_call_def lift_def)
  have 4: "write_file_execute env wd tc sn w =
        (Inl (Exn TypeError ''the JSON object must be str, bytes or bytearray, not NoneType''), w)"
    "run_shell_execute env wd tc sn w =
        (Inl (Exn TypeError ''the JSON object must be str, bytes or bytearray, not NoneType''), w)"
    if "tc_arguments tc = None"
    using that by (simp_all add: write_file_execute_def run_shell_execute_def json_loads_def)
  from 1 2[of tc] 3 4 show ?thesis by blast
qed

lemma example_decode_list:
  "json_decode (example_env script proc) ''[1]'' = Inr (JArr [JNum 1])"
  "json_decode (example_env script proc) ''not-json'' =
     Inl ''Expecting value: line 1 column 1 (char 0)''"
  by (simp_all add: example_env_def example_decode_def)

theorem malformed_arguments_witness:
  "coder_execute (example_env [] TimeoutExpired) example_ma
     (example_call ''call_1'' ''call_coder'' (Some ''not-json'')) 1 (example_world example_dirs) =
     (Inr ''Error: Invalid JSON in call_coder arguments. Expecting value: line 1 column 1 (char 0)\<newline>\<newline>Make sure 'approach' is provided as a properly escaped string.'',
      example_world example_dirs) \<and>
   coder_execute (example_env [] TimeoutExpired) example_ma
     (example_call ''call_1'' ''call_coder'' (Some ''[1]'')) 1 (example_world example_dirs) =
     (Inl (Exn AttributeError ([CHR 0x27] @ ''list' object has no attribute 'get'' @ [CHR 0x27])),
      example_world example_dirs) \<and>
   fst (dispatch_calls (example_env [] TimeoutExpired) example_ma 1
          [example_call ''call_1'' ''call_coder'' (Some ''[1]'')] []
          (example_world example_dirs)) =
     Raise (Exn AttributeError ([CHR 0x27] @ ''list' object has no attribute 'get'' @ [CHR 0x27])) \<and>
   write_file_execute (example_env [] TimeoutExpired) (PyPath True [''w''])
     (example_call ''call_2'' ''write_file'' None) 1 (example_world example_dirs) =
     (Inl (Exn TypeError ''the JSON object must be str, bytes or bytearray, not NoneType''),
      example_world example_dirs)"
proof -
  let ?env = "example_env [] TimeoutExpired"
  let ?w = "example_world example_dirs"
  have a: "tc_arguments (example_call i n args) = args"
    "(example_call i ''call_coder'' args)\<lparr>tc_name := ''call_coder''\<rparr> =
        example_call i ''call_coder'' args" for i n args
    by (simp_all add: example_call_def)
  have n: "no_attribute (JArr [JNum 1]) ''get'' =
      Exn AttributeError ([CHR 0x27] @ ''list' object has no attribute 'get'' @ [CHR 0x27])"
    by (simp add: no_attribute_def)
  have s: "''not-json'' \<noteq> []" "''not-json'' \<noteq> ''{}''" "''[1]'' \<noteq> []" "''[1]'' \<noteq> ''{}''"
    "\<forall>kvs. JArr [JNum 1] \<noteq> JObj kvs"
    by simp_all
  from malformed_arguments[where env = ?env and ma = example_ma and sn = 1 and w = ?w
      and tc = "example_call ''call_1'' ''call_coder'' (Some ''not-json'')" and s = "''not-json''"
      and err = "''Expecting value: line 1 column 1 (char 0)''"] a s
    example_decode_list[of "[]" TimeoutExpired]
  have 1: "coder_execute ?env example_ma
     (example_call ''call_1'' ''call_coder'' (Some ''not-json'')) 1 ?w =
     (Inr ''Error: Invalid JSON in call_coder arguments. Expecting value: line 1 column 1 (char 0)\<newline>\<newline>Make sure 'approach' is provided as a properly escaped string.'', ?w)"
    by simp
  from malformed_arguments[where env = ?env and ma = example_ma and sn = 1 and w = ?w
      and tc = "example_call ''call_1'' ''call_coder'' (Some ''[1]'')" and s = "''[1]''"
      and v = "JArr [JNum 1]" and rest = "[]" and messages = "[]"] a s
    example_decode_list[of "[]" TimeoutExpired]
  have 2: "coder_execute ?env example_ma
     (example_call ''call_1'' ''call_coder'' (Some ''[1]'')) 1 ?w =
     (Inl (no_attribute (JArr [JNum 1]) ''get''), ?w)"
    "fst (dispatch_calls ?env example_ma 1
          [example_call ''call_1'' ''call_coder'' (Some ''[1]'')] [] ?w) =
     Raise (no_attribute (JArr [JNum 1]) ''get'')"
    by simp_all
  from malformed_arguments[where env = ?env and wd = "PyPath True [''w'']" and sn = 1 and w = ?w
      and tc = "example_call ''call_2'' ''write_file'' None"] a
  have 3: "write_file_execute ?env (PyPath True [''w''])
     (example_call ''call_2'' ''write_file'' None) 1 ?w =
     (Inl (Exn TypeError ''the JSON object must be str, bytes or bytearray, not NoneType''), ?w)"
    by simp
  from 1 2 3 show ?thesis by (simp add: n)
qed

section \<open>The researcher's result\<close>

lemma run_researcher_nonempty:
  "run_researcher env prompt sn w = (Inr out, w') \<Longrightarrow> out \<noteq> []"
  by (auto simp: run_researcher_def except_Exception_def or_default_def
      split: option.splits sum.splits prod.splits if_splits)

lemma researcher_execute_nonempty:
  "researcher_execute env ma tc sn w = (Inr out, w') \<Longrightarrow> out \<noteq> []"
  by (auto simp: researcher_execute_def Let_def except_Exception_def run_async_def
      split: json.splits sum.splits prod.splits if_splits dest: run_researcher_nonempty)

text \<open>
  Claim C9 holds for every string \<^verbatim>\<open>ResearcherTool.execute\<close> returns, and fails where it
  does not return.  Whatever it returns is not empty; when the loop ends without text
  (the budget ran out, or the model answered with empty text) exactly one more request is
  made, with \<^verbatim>\<open>tools=None\<close> and the instruction to summarize appended, and an empty
  summary is replaced by \<^verbatim>\<open>No researcher answer produced.\<close>.  But for argument text
  that decodes to a non-empty value other than an object, \<^verbatim>\<open>execute\<close> raises
  \<^verbatim>\<open>AttributeError\<close> before it reaches its \<^verbatim>\<open>try\<close>: then it returns nothing.
\<close>

theorem researcher_result:
  "(truthy (safe_json_load env (Some (or_empty (tc_arguments tc)))) \<and>
    (\<forall>kvs. safe_json_load env (Some (or_empty (tc_arguments tc))) \<noteq> JObj kvs) \<longrightarrow>
      researcher_execute env ma tc sn w =
        (Inl (no_attribute (safe_json_load env (Some (or_empty (tc_arguments tc)))) ''get''), w)) \<and>
   (researcher_execute env ma tc sn w = (Inr out, w') \<longrightarrow> out \<noteq> []) \<and>
   (mcp_connect env = None \<and> mcp_list_tools env = Inr openai_tools \<and>
    researcher_steps env openai_tools [1..researcher_max_steps] [ChatText Developer prompt] w =
      (Inr [], messages, ws) \<and>
    completions env (served ws) None
      (messages @ [ChatText User ''Summarize your findings now in plain text (no tool calls).'']) =
      Inr summary_msg \<longrightarrow>
      run_researcher env prompt sn w =
        (Inr (if content_or_empty summary_msg = [] then ''No researcher answer produced.''
              else content_or_empty summary_msg),
         ws\<lparr>served := served ws + 1\<rparr>))"
proof -
  have 1: "researcher_execute env ma tc sn w = (Inl (no_attribute v ''get''), w)"
    if "safe_json_load env (Some (or_empty (tc_arguments tc))) = v" "truthy v"
      "\<forall>kvs. v \<noteq> JObj kvs" for v
    using that by (cases v) (simp_all add: researcher_execute_def Let_def)
  have 3: "run_researcher env prompt sn w =
        (Inr (if content_or_empty summary_msg = [] then ''No researcher answer produced.''
              else content_or_empty summary_msg),
         ws\<lparr>served := served ws + 1\<rparr>)"
    if "mcp_connect env = None" "mcp_list_tools env = Inr openai_tools"
      "researcher_steps env openai_tools [1..researcher_max_steps] [ChatText Developer prompt] w =
        (Inr [], messages, ws)"
      "completions env (served ws) None
        (messages @ [ChatText User ''Summarize your findings now in plain text (no tool calls).'']) =
        Inr summary_msg"
    using that by (simp add: run_researcher_def create_def or_default_def)
  from 1[OF refl] 3 researcher_execute_nonempty[of env ma tc sn w out w'] show ?thesis by blast
qed

lemma example_lookup_steps:
  "fst (researcher_steps (example_env lookup_script TimeoutExpired) [''get-library-docs'']
     [1..researcher_max_steps] [ChatText Developer ''prompt''] (example_world example_dirs)) = Inr []"
  by code_simp


lemma example_lookup_served:
  "served (snd (snd (researcher_steps (example_env lookup_script TimeoutExpired)
     [''get-library-docs''] [1..researcher_max_steps] [ChatText Developer ''prompt'']
     (example_world example_dirs)))) = 15"
  by code_simp

lemma example_lookup_summary:
  "completions (example_env lookup_script TimeoutExpired) 15 None msgs = Inr (plain [])"
  by code_simp

theorem researcher_result_witness:
  "researcher_execute (example_env lookup_script TimeoutExpired) example_ma
     (example_call ''call_4'' ''call_researcher'' (Some ''[1]'')) 1 (example_world example_dirs) =
     (Inl (Exn AttributeError ([CHR 0x27] @ ''list' object has no attribute 'get'' @ [CHR 0x27])),
      example_world example_dirs) \<and>
   fst (run_researcher (example_env lookup_script TimeoutExpired) ''prompt'' 1
          (example_world example_dirs)) = Inr ''No researcher answer produced.''"
proof -
  let ?env = "example_env lookup_script TimeoutExpired"
  let ?w = "example_world example_dirs"
  let ?tc = "example_call ''call_4'' ''call_researcher'' (Some ''[1]'')"
  have v: "safe_json_load ?env (Some (or_empty (tc_arguments ?tc))) = JArr [JNum 1]"
    by (simp add: safe_json_load_def or_empty_def or_braces_def example_call_def json_loads_def
        example_env_def example_decode_def)
  have n: "no_attribute (JArr [JNum 1]) ''get'' =
      Exn AttributeError ([CHR 0x27] @ ''list' object has no attribute 'get'' @ [CHR 0x27])"
    by (simp add: no_attribute_def)
  from researcher_result[where env = ?env and ma = example_ma and tc = ?tc and sn = 1 and w = ?w]
  have 1: "researcher_execute ?env example_ma ?tc 1 ?w =
             (Inl (no_attribute (JArr [JNum 1]) ''get''), ?w)"
    by (simp add: v)
  obtain r messages w1 where
    st: "researcher_steps ?env [''get-library-docs''] [1..researcher_max_steps]
           [ChatText Developer ''prompt''] ?w = (r, messages, w1)"
    by (cases "researcher_steps ?env [''get-library-docs''] [1..researcher_max_steps]
           [ChatText Developer ''prompt''] ?w") auto
  from st example_lookup_steps example_lookup_served
  have r: "r = Inr []" "served w1 = 15" by simp_all
  have e: "mcp_connect ?env = None" "mcp_list_tools ?env = Inr [''get-library-docs'']"
    by (simp_all add: example_env_def)
  from researcher_result[where env = ?env and prompt = "''prompt''" and w = ?w and sn = 1
      and openai_tools = "[''get-library-docs'']" and messages = messages and ws = w1
      and summary_msg = "plain []"] e st r example_lookup_summary
  have 2: "fst (run_researcher ?env ''prompt'' 1 ?w) = Inr ''No researcher answer produced.''"
    by (simp add: content_or_empty_def plain_def)
  from 1 2 show ?thesis by (simp add: n)
qed

section \<open>Faults of handlers\<close>

lemma str_int_minus_one: "str_int (- 1) = ''-1''"
  by (simp add: str_int_def str_nat.simps digit_def)

lemma write_file_execute_returns:
  assumes "write_file_target env wd tc = Some t"
  shows "\<exists>out w'. write_file_execute env wd tc sn w = (Inr out, w')"
proof -
  from write_file_execute_target[OF assms, of sn w]
  show ?thesis
  proof
    assume "\<exists>text. write_file_execute env wd tc sn w = (Inr text, w) \<and> prefix ''Error'' text"
    then show ?thesis by blast
  next
    assume "\<exists>path c. t = resolve env (if is_absolute (Path path) then Path path else joinpath wd (Path path)) \<and>
      write_file_execute env wd tc sn w =
        except_Exception
          (write_within env wd
             (if is_absolute (Path path) then Path path else joinpath wd (Path path)) c w)
          (\<lambda>exc. ''Error writing file: '' @ exn_msg exc)"
    then obtain path c where x: "write_file_execute env wd tc sn w =
        except_Exception
          (write_within env wd
             (if is_absolute (Path path) then Path path else joinpath wd (Path path)) c w)
          (\<lambda>exc. ''Error writing file: '' @ exn_msg exc)"
      by blast
    obtain r w1 where ww: "write_within env wd
             (if is_absolute (Path path) then Path path else joinpath wd (Path path)) c w = (r, w1)"
      by (cases "write_within env wd
             (if is_absolute (Path path) then Path path else joinpath wd (Path path)) c w") auto
    show ?thesis
    proof (cases r)
      case (Inl e)
      with ww write_within_raises[of env wd _ c w e w1] x show ?thesis
        by (simp add: except_Exception_def)
    next
      case (Inr out)
      with ww x show ?thesis by (simp add: except_Exception_def)
    qed
  qed
qed

text \<open>
  Claim C4, as amended.  The loops that dispatch tool calls catch nothing: the text a
  handler returns becomes the tool message of its call, and an exception a handler raises
  leaves \<^verbatim>\<open>ToolChatAgent.run\<close>, and the coordinator's loop over the tool calls, as that
  exception, with no tool message for the call.  Faults become text inside the handlers:
  \<^verbatim>\<open>WriteFileTool.execute\<close>, given an argument object with a text path, always returns
  (a failure to resolve, to create the directories or to write is the text
  \<^verbatim>\<open>Error writing file: ...\<close>); \<^verbatim>\<open>RunShellTool.execute\<close> returns
  \<^verbatim>\<open>Command execution failed: ... (exit_code=-1)\<close> when the spawn fails with an
  \<^verbatim>\<open>Exception\<close>; \<^verbatim>\<open>ResearcherTool.execute\<close> returns \<^verbatim>\<open>Error running researcher: ...\<close>
  when its nested run raises an \<^verbatim>\<open>Exception\<close>.
\<close>

theorem handler_faults:
  "(handlers (tc_name tc) = Some h \<and> h tc sn w = (Inl e, w') \<longrightarrow>
      handle_tool_calls handlers sn (tc # tcs) msgs w = (Some e, msgs, w')) \<and>
   (handlers (tc_name tc) = Some h \<and> h tc sn w = (Inr out, w') \<longrightarrow>
      handle_tool_calls handlers sn (tc # tcs) msgs w =
        handle_tool_calls handlers sn tcs (msgs @ [ToolReply (tc_id tc) out]) w') \<and>
   (client ag (Some (tools ag)) msgs w = (Inr message, w') \<and> calls_of message = tc # tcs \<and>
    tool_handlers ag (tc_name tc) = Some h \<and> h tc sn w' = (Inl e, w'') \<longrightarrow>
      run_steps ag sn (i # rest) msgs w =
        (Inl e, [(msgs, Inr message)], msgs @ [AssistantCalls (tc # tcs)], w'')) \<and>
   (dispatch_call env ma sn tc cw = (Raised e, cw') \<longrightarrow>
      dispatch_calls env ma sn (tc # tcs) msgs cw = (Raise e, msgs, cw')) \<and>
   (write_file_target env wd tc = Some t \<longrightarrow>
      (\<exists>out fw'. write_file_execute env wd tc sn fw = (Inr out, fw'))) \<and>
   (json_loads env (tc_arguments tc) = Inr (JObj args) \<and>
    map_of args ''cmd'' = Some (JStr cmd) \<and> strip cmd \<noteq> [] \<and> present (map_of args ''action'') \<and>
    subprocess_run env cmd (resolve env wd) (files fw) = (SpawnFailed e, fls) \<and>
    is_Exception (exn_cls e) \<longrightarrow>
      run_shell_execute env wd tc sn fw =
        (Inr (''Command execution failed: '' @ exn_msg e @ '' (exit_code=-1)''),
         fw\<lparr>files := fls\<rparr>)) \<and>
   (safe_json_load env (Some (or_empty (tc_arguments tc))) = JObj kvs \<and> kvs \<noteq> [] \<and>
    stripped_field (map_of kvs ''query'') = Inr query \<and> query \<noteq> [] \<and>
    libraries_text (map_of kvs ''libraries'') = Inr libs \<and>
    run_researcher env
      (format env RESEARCHER_PROMPT
         [(''query'', query), (''libraries'', libs),
            (''task_description'',
             or_default (task_description ma) ''(no description provided)'')])
      sn cw = (Inl e, cw') \<and>
    is_Exception (exn_cls e) \<longrightarrow>
      (\<exists>out. researcher_execute env ma tc sn cw = (Inr out, cw') \<and>
             prefix ''Error running researcher: '' out))"
proof -
  have 3: "run_steps ag sn (i # rest) msgs w =
        (Inl e, [(msgs, Inr message)], msgs @ [AssistantCalls (tc # tcs)], w'')"
    if "client ag (Some (tools ag)) msgs w = (Inr message, w')" "calls_of message = tc # tcs"
      "tool_handlers ag (tc_name tc) = Some h" "h tc sn w' = (Inl e, w'')"
    using that by simp
  have 6: "run_shell_execute env wd tc sn fw =
        (Inr (''Command execution failed: '' @ exn_msg e @ '' (exit_code=-1)''),
         fw\<lparr>files := fls\<rparr>)"
    if "json_loads env (tc_arguments tc) = Inr (JObj args)"
      "map_of args ''cmd'' = Some (JStr cmd)" "strip cmd \<noteq> []" "present (map_of args ''action'')"
      "subprocess_run env cmd (resolve env wd) (files fw) = (SpawnFailed e, fls)"
      "is_Exception (exn_cls e)"
  proof -
    from that(3) have "cmd \<noteq> []" by (auto simp: strip_def)
    with that show ?thesis
      by (simp add: run_shell_execute_def present_def run_command_def except_Exception_def
          str_int_minus_one)
  qed
  have 7: "\<exists>out. researcher_execute env ma tc sn cw = (Inr out, cw') \<and>
             prefix ''Error running researcher: '' out"
    if "safe_json_load env (Some (or_empty (tc_arguments tc))) = JObj kvs" "kvs \<noteq> []"
      "stripped_field (map_of kvs ''query'') = Inr query" "query \<noteq> []"
      "libraries_text (map_of kvs ''libraries'') = Inr libs"
      "run_researcher env
        (format env RESEARCHER_PROMPT
           [(''query'', query), (''libraries'', libs),
            (''task_description'',
             or_default (task_description ma) ''(no description provided)'')])
        sn cw = (Inl e, cw')"
      "is_Exception (exn_cls e)"
    using that
    by (simp add: researcher_execute_def Let_def run_async_def except_Exception_def)
  from 3 6 7 write_file_execute_returns[of env wd tc t sn fw] show ?thesis
    by (simp add: lift_def)
qed


lemma example_world_fields:
  "files (example_world fls) = fls" "served (example_world fls) = 0"
  "coder_solver_path (example_world fls) = example_solver" "history (example_world fls) = []"
  by (simp_all add: example_world_def)

lemma example_ma_fields:
  "workdir example_ma = PyPath True [''w'']" "agent_max_steps example_ma = 3"
  "enable_researcher example_ma" "enable_tester example_ma"
  "system_prompt example_ma = ''You are a concise coordinator''"
  by (simp_all add: example_ma_def)

lemma failing_env_fields:
  \<open>completions failing_env 0 adv msgs =
     Inr (calling [example_call ''call_1'' ''call_coder'' (Some ''{"approach": "use numpy"}'')])\<close>
  "completions failing_env (Suc n) adv msgs = Inl (Exn OtherException ''Connection error.'')"
  \<open>json_loads failing_env (Some ''{"approach": "use numpy"}'') =
     Inr (JObj [(''approach'', JStr ''use numpy'')])\<close>
  "resolve failing_env (parent example_solver) = [''w'', ''results'', ''tsp'']"
  by (simp_all add: failing_env_def example_env_def json_loads_def example_decode_def
      lexical_resolve_def parent_def example_solver_def)

lemma example_mkdir:
  "mkdir_parents [''w'', ''results'', ''tsp''] example_dirs = (None, example_dirs)"
  by (simp add: mkdir_parents_def example_dirs_def)

lemma failing_coder_run:
  "fst (multi_agent_run failing_env example_ma (example_world example_dirs)) =
     RunRaised (Exn OtherException ''Connection error.'')"
proof -
  have abs: "is_absolute example_solver" by (simp add: example_solver_def)
  have st: "strip ''use numpy'' = ''use numpy''" by (simp add: strip_def py_space_def)
  have w: "(example_world example_dirs)\<lparr>served := Suc 0, files := example_dirs,
              coder_solver_path := example_solver\<rparr> = (example_world example_dirs)\<lparr>served := Suc 0\<rparr>"
    by (simp add: example_world_def)
  have c: \<open>coder_execute failing_env example_ma
             (example_call ''call_1'' ''call_coder'' (Some ''{"approach": "use numpy"}'')) 1
             ((example_world example_dirs)\<lparr>served := Suc 0\<rparr>) =
           (Inl (Exn OtherException ''Connection error.''),
            (example_world example_dirs)\<lparr>served := Suc (Suc 0)\<rparr>)\<close>
    by (simp add: coder_execute_def example_call_def or_braces_def failing_env_fields
        stripped_field_def st coder_target_def present_def example_world_fields abs
        example_mkdir run_def coder_agent_def coder_max_steps_def upto.simps create_def w)
  show ?thesis
    by (simp add: multi_agent_run_def example_ma_fields upto.simps Let_def create_def
        example_world_fields failing_env_fields calls_of_def calling_def
        dispatch_call_def c[unfolded example_call_def] example_call_def lift_def)
qed


lemma none_write_raises:
  "write_file_execute env wd (example_call i ''write_file'' None) sn w =
     (Inl (Exn TypeError ''the JSON object must be str, bytes or bytearray, not NoneType''), w)"
  by (simp add: write_file_execute_def example_call_def json_loads_def)

lemma none_write_run:
  "run (test_generator_agent
          (example_env [calling [example_call ''call_1'' ''write_file'' None]] TimeoutExpired)
          example_ma)
     ''prompt'' 1 None (example_world example_dirs) =
   (Inl (Exn TypeError ''the JSON object must be str, bytes or bytearray, not NoneType''),
    [([ChatText Developer ''prompt''],
      Inr (calling [example_call ''call_1'' ''write_file'' None]))],
    [ChatText Developer ''prompt'',
     AssistantCalls [example_call ''call_1'' ''write_file'' None]],
    (example_world example_dirs)\<lparr>served := Suc 0\<rparr>)"
proof -
  have n: "tc_name (example_call i n a) = n" for i n a by (simp add: example_call_def)
  show ?thesis
    by (simp add: run_def test_generator_agent_def test_generator_max_steps_def upto.simps
        create_def example_env_def example_world_fields calls_of_def calling_def n
        none_write_raises)
qed

text \<open>
  The counterexample to claim C4 as stated.  A \<^verbatim>\<open>write_file\<close> call without argument
  text inside the test generator's loop: the handler raises \<^verbatim>\<open>TypeError\<close> and
  \<^verbatim>\<open>ToolChatAgent.run\<close> ends with it.  A fault of the model endpoint inside the coder's
  nested loop: \<^verbatim>\<open>CoderTool.execute\<close> raises it and \<^verbatim>\<open>MultiAgent.run\<close> ends with it.
\<close>

theorem handler_exception_leaves_run:
  "fst (run (test_generator_agent
               (example_env [calling [example_call ''call_1'' ''write_file'' None]] TimeoutExpired)
               example_ma)
          ''prompt'' 1 None (example_world example_dirs)) =
     Inl (Exn TypeError ''the JSON object must be str, bytes or bytearray, not NoneType'') \<and>
   fst (multi_agent_run failing_env example_ma (example_world example_dirs)) =
     RunRaised (Exn OtherException ''Connection error.'')"
  by (simp add: none_write_run failing_coder_run)

lemma example_decode_shell:
  \<open>json_loads (example_env script proc) (Some ''{"cmd": "ls", "action": "list files"}'') =
     Inr (JObj [(''cmd'', JStr ''ls''), (''action'', JStr ''list files'')])\<close>
  by (simp add: json_loads_def example_env_def example_decode_def)

lemma offline_researcher:
  \<open>safe_json_load offline_env (Some (or_empty (Some ''{"query": "fast sorting"}''))) =
     JObj [(''query'', JStr ''fast sorting'')]\<close>
  "run_researcher offline_env prompt sn w = (Inl (Exn OtherException ''connection refused''), w)"
  by (simp_all add: safe_json_load_def or_empty_def or_braces_def json_loads_def offline_env_def
      example_env_def example_decode_def run_researcher_def)

theorem handler_faults_witness:
  \<open>handle_tool_calls
     (tool_handlers (test_generator_agent (example_env [] TimeoutExpired) example_ma)) 1
     [example_call ''call_1'' ''write_file'' None] [] (example_world example_dirs) =
     (Some (Exn TypeError ''the JSON object must be str, bytes or bytearray, not NoneType''),
      [], example_world example_dirs) \<and>
   handle_tool_calls
     (tool_handlers (test_generator_agent (example_env [] TimeoutExpired) example_ma)) 1
     [example_call ''call_2'' ''write_file''
        (Some ''{"path": "../etc/passwd", "content": "root", "action": "escape"}'')] []
     (example_world example_dirs) =
     (None,
      [ToolReply ''call_2''
         (''Error writing file: '/etc/passwd' is not in the subpath of '/w'' @ [CHR 0x27])],
      example_world example_dirs) \<and>
   fst (run (test_generator_agent
               (example_env [calling [example_call ''call_1'' ''write_file'' None]] TimeoutExpired)
               example_ma)
          ''prompt'' 1 None (example_world example_dirs)) =
     Inl (Exn TypeError ''the JSON object must be str, bytes or bytearray, not NoneType'') \<and>
   dispatch_calls (example_env [] TimeoutExpired) example_ma 1
     [example_call ''call_1'' ''write_file'' None] [] (example_world example_dirs) =
     (Raise (Exn TypeError ''the JSON object must be str, bytes or bytearray, not NoneType''),
      [], example_world example_dirs) \<and>
   (\<exists>out fw'. write_file_execute (example_env [] TimeoutExpired) (PyPath True [''w''])
        (example_call ''call_2'' ''write_file''
           (Some ''{"path": "../etc/passwd", "content": "root", "action": "escape"}''))
        1 (example_world example_dirs) = (Inr out, fw')) \<and>
   run_shell_execute (example_env [] (SpawnFailed (Exn OSError ''Exec format error'')))
     (PyPath True [''w''])
     (example_call ''call_3'' ''run_shell'' (Some ''{"cmd": "ls", "action": "list files"}''))
     1 (example_world example_dirs) =
     (Inr ''Command execution failed: Exec format error (exit_code=-1)'',
      example_world example_dirs) \<and>
   (\<exists>out. researcher_execute offline_env example_ma
        (example_call ''call_4'' ''call_researcher'' (Some ''{"query": "fast sorting"}''))
        1 (example_world example_dirs) = (Inr out, example_world example_dirs) \<and>
      prefix ''Error running researcher: '' out)\<close>
proof -
  let ?env = "example_env [] TimeoutExpired"
  let ?w = "example_world example_dirs"
  let ?wd = "PyPath True [''w'']"
  let ?h = "write_file_execute ?env ?wd"
  let ?e = "Exn TypeError ''the JSON object must be str, bytes or bytearray, not NoneType''"
  let ?none = "example_call ''call_1'' ''write_file'' None"
  note f1 = handler_faults[THEN conjunct1, rule_format]
  note f2 = handler_faults[THEN conjunct2, THEN conjunct1, rule_format]
  note f3 = handler_faults[THEN conjunct2, THEN conjunct2, THEN conjunct1, rule_format]
  note f4 = handler_faults[THEN conjunct2, THEN conjunct2, THEN conjunct2, THEN conjunct1,
      rule_format]
  note f5 = handler_faults[THEN conjunct2, THEN conjunct2, THEN conjunct2, THEN conjunct2,
      THEN conjunct1, rule_format]
  note f6 = handler_faults[THEN conjunct2, THEN conjunct2, THEN conjunct2, THEN conjunct2,
      THEN conjunct2, THEN conjunct1, rule_format]
  note f7 = handler_faults[THEN conjunct2, THEN conjunct2, THEN conjunct2, THEN conjunct2,
      THEN conjunct2, THEN conjunct2, rule_format]
  have c: "tc_name (example_call i n a) = n" "tc_id (example_call i n a) = i"
    "tc_arguments (example_call i n a) = a" for i n a
    by (simp_all add: example_call_def)
  have hd: "tool_handlers (test_generator_agent env example_ma) ''write_file'' =
      Some (write_file_execute env ?wd)" for env
    by (simp add: test_generator_agent_def example_ma_fields)
  have 1: "handle_tool_calls (tool_handlers (test_generator_agent ?env example_ma)) 1
      [?none] [] ?w = (Some ?e, [], ?w)"
    by (rule f1[where h = ?h]) (simp add: c hd none_write_raises)
  have \<open>handle_tool_calls (tool_handlers (test_generator_agent ?env example_ma)) 1
     [example_call ''call_2'' ''write_file''
        (Some ''{"path": "../etc/passwd", "content": "root", "action": "escape"}'')] [] ?w =
     handle_tool_calls (tool_handlers (test_generator_agent ?env example_ma)) 1 []
       ([] @ [ToolReply
         (tc_id (example_call ''call_2'' ''write_file''
            (Some ''{"path": "../etc/passwd", "content": "root", "action": "escape"}'')))
         (''Error writing file: '/etc/passwd' is not in the subpath of '/w'' @ [CHR 0x27])]) ?w\<close>
    by (rule f2[where h = ?h]) (simp add: c hd example_write_escape)
  then have 2: \<open>handle_tool_calls (tool_handlers (test_generator_agent ?env example_ma)) 1
     [example_call ''call_2'' ''write_file''
        (Some ''{"path": "../etc/passwd", "content": "root", "action": "escape"}'')] [] ?w =
     (None,
      [ToolReply ''call_2''
         (''Error writing file: '/etc/passwd' is not in the subpath of '/w'' @ [CHR 0x27])], ?w)\<close>
    by (simp add: c)
  let ?env1 = "example_env [calling [?none]] TimeoutExpired"
  have cc: "calls_of (calling tcs) = tcs" for tcs by (simp add: calls_of_def calling_def)
  have cl: "client (test_generator_agent ?env1 example_ma)
      (Some (tools (test_generator_agent ?env1 example_ma))) [ChatText Developer ''prompt''] ?w =
      (Inr (calling [?none]), ?w\<lparr>served := Suc 0\<rparr>)"
    by (simp add: test_generator_agent_def create_def example_env_def example_world_fields)
  have "run_steps (test_generator_agent ?env1 example_ma) 1 (1 # [2..10])
      [ChatText Developer ''prompt''] ?w =
      (Inl ?e, [([ChatText Developer ''prompt''], Inr (calling [?none]))],
       [ChatText Developer ''prompt''] @ [AssistantCalls [?none]], ?w\<lparr>served := Suc 0\<rparr>)"
    by (rule f3[where h = "write_file_execute ?env1 ?wd" and w' = "?w\<lparr>served := Suc 0\<rparr>"])
      (simp add: cl c hd none_write_raises cc)
  moreover have "[1..max_steps (test_generator_agent ?env1 example_ma)] = 1 # [2..10]"
    by (simp add: test_generator_agent_def test_generator_max_steps_def upto.simps)
  ultimately have 3: "fst (run (test_generator_agent ?env1 example_ma) ''prompt'' 1 None ?w) = Inl ?e"
    by (simp add: run_def)
  have 4: "dispatch_calls ?env example_ma 1 [?none] [] ?w = (Raise ?e, [], ?w)"
    by (rule f4) (simp add: dispatch_call_def c example_ma_fields none_write_raises lift_def)
  have 5: \<open>\<exists>out fw'. write_file_execute ?env ?wd
        (example_call ''call_2'' ''write_file''
           (Some ''{"path": "../etc/passwd", "content": "root", "action": "escape"}''))
        1 ?w = (Inr out, fw')\<close>
    by (rule f5) (rule example_target_escape)
  let ?envs = "example_env [] (SpawnFailed (Exn OSError ''Exec format error''))"
  have sp: "subprocess_run ?envs ''ls'' (resolve ?envs ?wd) (files ?w) =
      (SpawnFailed (Exn OSError ''Exec format error''), example_dirs)"
    by (simp add: example_env_def example_world_def)
  have \<open>run_shell_execute ?envs ?wd
     (example_call ''call_3'' ''run_shell'' (Some ''{"cmd": "ls", "action": "list files"}''))
     1 ?w =
     (Inr (''Command execution failed: '' @ exn_msg (Exn OSError ''Exec format error'') @
           '' (exit_code=-1)''), ?w\<lparr>files := example_dirs\<rparr>)\<close>
    by (rule f6[where args = "[(''cmd'', JStr ''ls''), (''action'', JStr ''list files'')]"
          and cmd = "''ls''"])
      (simp add: c example_decode_shell sp strip_def py_space_def present_def)
  then have 6: \<open>run_shell_execute ?envs ?wd
     (example_call ''call_3'' ''run_shell'' (Some ''{"cmd": "ls", "action": "list files"}''))
     1 ?w = (Inr ''Command execution failed: Exec format error (exit_code=-1)'', ?w)\<close>
    by (simp add: example_world_def)
  have 7: \<open>\<exists>out. researcher_execute offline_env example_ma
        (example_call ''call_4'' ''call_researcher'' (Some ''{"query": "fast sorting"}''))
        1 ?w = (Inr out, ?w) \<and> prefix ''Error running researcher: '' out\<close>
    by (rule f7[where kvs = "[(''query'', JStr ''fast sorting'')]" and query = "''fast sorting''"
          and libs = "''(none provided)''" and e = "Exn OtherException ''connection refused''"])
      (simp add: c offline_researcher stripped_field_def strip_def py_space_def
        libraries_text_def present_def)
  from 1 2 3 4 5 6 7 show ?thesis by blast
qed

section \<open>The test generator and the deliverable\<close>

lemma mkdir_from_frame:
  "\<not> prefix p (d @ cs) \<Longrightarrow> snd (mkdir_from d cs f) p = f p"
proof (induction cs arbitrary: d f)
  case Nil
  then show ?case by simp
next
  case (Cons c cs)
  have ne: "p \<noteq> d @ [c]"
  proof
    assume "p = d @ [c]"
    then have "prefix p (d @ c # cs)" by (simp add: prefix_def)
    with Cons.prems show False by simp
  qed
  from Cons.prems have "\<not> prefix p ((d @ [c]) @ cs)" by simp
  from Cons.IH[OF this] ne show ?case
    by (auto split: option.splits node.splits)
qed

lemma prefix_butlast: "prefix p (butlast t) \<Longrightarrow> prefix p t"
  by (metis append_butlast_last_id butlast.simps(1) prefix_append prefix_order.eq_iff)

lemma write_within_frame:
  assumes "\<not> prefix p (resolve env t0)"
  shows "files (snd (write_within env wd t0 c w)) p = files w p"
proof -
  have 1: "snd (mkdir_parents (butlast (resolve env t0)) fls) p = fls p" for fls
    unfolding mkdir_parents_def using mkdir_from_frame[of p "[]" "butlast (resolve env t0)" fls]
      assms prefix_butlast
    by auto
  have 2: "snd (write_text (resolve env t0) body fls) p = fls p" for body fls
    using assms by (auto simp: write_text_def)
  show ?thesis
    using 1[of "files w"] 2
    by (auto simp: write_within_def Let_def parent_def
        split: sum.splits prod.splits option.splits json.splits)
       (metis snd_conv)+
qed


lemma write_file_execute_frame:
  assumes "spares env wd p tc" "tc_name tc = ''write_file''"
  shows "files (snd (write_file_execute env wd tc sn w)) p = files w p"
proof -
  from write_file_execute_cases[of env wd tc sn w]
  show ?thesis
  proof
    assume "\<exists>r. write_file_execute env wd tc sn w = (r, w) \<and>
        (\<forall>text. r = Inr text \<longrightarrow> prefix ''Error'' text)"
    then show ?thesis by auto
  next
    assume "\<exists>args path c. json_loads env (tc_arguments tc) = Inr (JObj args) \<and>
      map_of args ''path'' = Some (JStr path) \<and> map_of args ''content'' = Some c \<and>
      write_file_execute env wd tc sn w =
        except_Exception
          (write_within env wd
             (if is_absolute (Path path) then Path path else joinpath wd (Path path)) c w)
          (\<lambda>exc. ''Error writing file: '' @ exn_msg exc)"
    then obtain args path c where a: "json_loads env (tc_arguments tc) = Inr (JObj args)"
      "map_of args ''path'' = Some (JStr path)"
      "write_file_execute env wd tc sn w =
        except_Exception
          (write_within env wd
             (if is_absolute (Path path) then Path path else joinpath wd (Path path)) c w)
          (\<lambda>exc. ''Error writing file: '' @ exn_msg exc)"
      by blast
    let ?t0 = "if is_absolute (Path path) then Path path else joinpath wd (Path path)"
    from a(1,2) have "write_file_target env wd tc = Some (resolve env ?t0)"
      by (simp add: write_file_target_def)
    with assms have "\<not> prefix p (resolve env ?t0)" by (simp add: spares_def)
    from write_within_frame[OF this, of wd c w] a(3) show ?thesis
      by (auto simp: except_Exception_def split: prod.splits sum.splits)
  qed
qed

lemma run_shell_execute_frame:
  assumes "\<forall>cmd cwd fls. snd (subprocess_run env cmd cwd fls) p = fls p"
  shows "files (snd (run_shell_execute env wd tc sn w)) p = files w p"
proof -
  have "files (snd (run_command env cwd cmd w)) p = files w p" for cwd cmd
    using assms[rule_format, of cmd cwd "files w"]
    by (auto simp: run_command_def except_Exception_def split: prod.splits proc_result.splits)
  then show ?thesis
    by (auto simp: run_shell_execute_def split: sum.splits json.splits option.splits prod.splits)
       (metis snd_conv)+
qed

lemma test_generator_handlers_frame:
  assumes "\<forall>cmd cwd fls. snd (subprocess_run env cmd cwd fls) p = fls p"
    and "list_all (spares env (workdir ma) p) tcs"
  shows "files (snd (snd (handle_tool_calls (tool_handlers (test_generator_agent env ma)) sn tcs
           msgs w))) p = files w p"
  using assms(2)
proof (induction tcs arbitrary: msgs w)
  case Nil
  then show ?case by simp
next
  case (Cons tc tcs)
  from Cons.prems have sp: "spares env (workdir ma) p tc" and rest: "list_all (spares env (workdir ma) p) tcs"
    by simp_all
  note ih = Cons.IH[OF rest]
  consider (wf) "tc_name tc = ''write_file''" | (sh) "tc_name tc = ''run_shell''"
    | (other) "tc_name tc \<noteq> ''write_file''" "tc_name tc \<noteq> ''run_shell''"
    by blast
  then show ?case
  proof cases
    case wf
    obtain r w1 where x: "write_file_execute env (workdir ma) tc sn w = (r, w1)"
      by (cases "write_file_execute env (workdir ma) tc sn w") auto
    with write_file_execute_frame[OF sp wf, of sn w] have "files w1 p = files w p" by simp
    with x wf ih show ?thesis
      by (cases r) (simp_all add: test_generator_agent_def)
  next
    case sh
    obtain r w1 where x: "run_shell_execute env (workdir ma) tc sn w = (r, w1)"
      by (cases "run_shell_execute env (workdir ma) tc sn w") auto
    with run_shell_execute_frame[OF assms(1), of "workdir ma" tc sn w] have "files w1 p = files w p"
      by simp
    with x sh ih show ?thesis
      by (cases r) (simp_all add: test_generator_agent_def)
  next
    case other
    with ih show ?thesis by (simp add: test_generator_agent_def)
  qed
qed

lemma test_generator_steps_frame:
  assumes "\<forall>n advertised messages message.
             completions env n advertised messages = Inr message \<longrightarrow>
             list_all (spares env (workdir ma) p) (calls_of message)"
    and "\<forall>cmd cwd fls. snd (subprocess_run env cmd cwd fls) p = fls p"
  shows "files (snd (snd (snd (run_steps (test_generator_agent env ma) sn steps msgs w)))) p =
         files w p"
proof (induction steps arbitrary: msgs w)
  case Nil
  then show ?case by simp
next
  case (Cons i rest)
  let ?ag = "test_generator_agent env ma"
  have cl: "client ?ag (Some (tools ?ag)) msgs w =
      (completions env (served w) (Some (tools ?ag)) msgs, w\<lparr>served := served w + 1\<rparr>)"
    by (simp add: test_generator_agent_def create_def)
  show ?case
  proof (cases "completions env (served w) (Some (tools ?ag)) msgs")
    case (Inl e)
    with cl show ?thesis by simp
  next
    case (Inr message)
    with assms(1) have sp: "list_all (spares env (workdir ma) p) (calls_of message)" by blast
    let ?w1 = "w\<lparr>served := served w + 1\<rparr>"
    obtain eo m2 w2 where h: "handle_tool_calls (tool_handlers ?ag) sn (calls_of message)
        (msgs @ [AssistantCalls (calls_of message)]) ?w1 = (eo, m2, w2)"
      by (cases "handle_tool_calls (tool_handlers ?ag) sn (calls_of message)
        (msgs @ [AssistantCalls (calls_of message)]) ?w1") auto
    from test_generator_handlers_frame[OF assms(2) sp, of sn
        "msgs @ [AssistantCalls (calls_of message)]" ?w1] h
    have w2: "files w2 p = files w p" by simp
    from Cons.IH[of m2 w2] w2
    have "files (snd (snd (snd (run_steps ?ag sn rest m2 w2)))) p = files w p" by simp
    with cl Inr h w2 show ?thesis
      by (cases eo) (auto split: prod.splits)
  qed
qed

text \<open>
  Claim C8, as amended.  The test generator's tools are the unrestricted
  \<^verbatim>\<open>write_file\<close> and \<^verbatim>\<open>run_shell\<close>: nothing in \<^verbatim>\<open>TestGenerator.execute\<close> guards
  the deliverable.  The node at a path \<open>p\<close> is left as it was by an invocation provided
  that no \<^verbatim>\<open>write_file\<close> call the model can issue resolves to \<open>p\<close> or to a path below
  it, and that no shell command changes the node at \<open>p\<close>.
\<close>

theorem test_generator_spares_deliverable:
  assumes "\<forall>n advertised messages message.
             completions env n advertised messages = Inr message \<longrightarrow>
             list_all (spares env (workdir ma) p) (calls_of message)"
    and "\<forall>cmd cwd fls. snd (subprocess_run env cmd cwd fls) p = fls p"
  shows "files (snd (test_generator_execute env ma tool_call step_num w)) p = files w p"
proof -
  have "files (snd (snd (snd (run (test_generator_agent env ma) prompt step_num hist w0)))) p =
        files w0 p" for prompt hist w0
    unfolding run_def by (rule test_generator_steps_frame[OF assms])
  then have r: "run (test_generator_agent env ma) prompt step_num hist w0 = (res, rounds, ms, w2)
      \<Longrightarrow> files w2 p = files w0 p" for prompt hist w0 res rounds ms w2
    by (metis snd_conv)
  show ?thesis
    by (auto simp: test_generator_execute_def Let_def
        split: sum.splits json.splits option.splits prod.splits if_splits dest!: r)
qed


text \<open>
  The counterexample to claim C8 as stated: within one invocation of
  \<^verbatim>\<open>TestGenerator.execute\<close> the model calls \<^verbatim>\<open>write_file\<close> on the solver path; the
  invocation returns its summary and the solver file has been overwritten.
\<close>

theorem test_generator_overwrites_solver:
  "files (example_world (solver_file ''def solve(problem): return problem''))
     [''w'', ''results'', ''tsp'', ''solver.py''] =
     Some (File ''def solve(problem): return problem'') \<and>
   fst (test_generator_execute (example_env overwrite_script TimeoutExpired) example_ma
          testgen_call 1 (example_world (solver_file ''def solve(problem): return problem''))) =
     Inr ''All tests pass.'' \<and>
   files (snd (test_generator_execute (example_env overwrite_script TimeoutExpired) example_ma
                 testgen_call 1
                 (example_world (solver_file ''def solve(problem): return problem''))))
     [''w'', ''results'', ''tsp'', ''solver.py''] = Some (File ''pass'')"
  by code_simp


lemma harness_script_spares:
  assumes "completions (example_env harness_script TimeoutExpired) n adv msgs = Inr message"
  shows "list_all (spares (example_env harness_script TimeoutExpired) (PyPath True [''w''])
           [''w'', ''results'', ''tsp'', ''solver.py'']) (calls_of message)"
proof -
  let ?call = \<open>example_call ''call_3'' ''write_file''
      (Some ''{"path": "harness.py", "content": "import solver", "action": "create harness"}'')\<close>
  have "n = 0 \<or> n = 1 \<or> 2 \<le> n" by arith
  with assms have "message = calling [?call] \<or> message = plain ''All tests pass.'' \<or>
      message = plain ''done''"
    by (auto simp: example_env_def harness_script_def)
  moreover have "spares (example_env harness_script TimeoutExpired) (PyPath True [''w''])
           [''w'', ''results'', ''tsp'', ''solver.py''] ?call"
    by (simp add: spares_def example_target_harness)
  ultimately show ?thesis
    by (auto simp: calls_of_def calling_def plain_def)
qed

lemma example_harness_written:
  "files (snd (test_generator_execute (example_env harness_script TimeoutExpired) example_ma
                 testgen_call 1
                 (example_world (solver_file ''def solve(problem): return problem''))))
     [''w'', ''harness.py''] = Some (File ''import solver'')"
  by code_simp

theorem test_generator_spares_deliverable_witness:
  "files (snd (test_generator_execute (example_env harness_script TimeoutExpired) example_ma
                 testgen_call 1
                 (example_world (solver_file ''def solve(problem): return problem''))))
     [''w'', ''results'', ''tsp'', ''solver.py''] =
     Some (File ''def solve(problem): return problem'') \<and>
   files (snd (test_generator_execute (example_env harness_script TimeoutExpired) example_ma
                 testgen_call 1
                 (example_world (solver_file ''def solve(problem): return problem''))))
     [''w'', ''harness.py''] = Some (File ''import solver'')"
proof -
  let ?env = "example_env harness_script TimeoutExpired"
  let ?p = "[''w'', ''results'', ''tsp'', ''solver.py'']"
  have h1: "\<forall>n advertised messages message.
      completions ?env n advertised messages = Inr message \<longrightarrow>
      list_all (spares ?env (workdir example_ma) ?p) (calls_of message)"
    using harness_script_spares by (simp add: example_ma_fields)
  have h2: "\<forall>cmd cwd fls. snd (subprocess_run ?env cmd cwd fls) ?p = fls ?p"
    by (simp add: example_env_def)
  have before: "files (example_world (solver_file ''def solve(problem): return problem'')) ?p =
      Some (File ''def solve(problem): return problem'')"
    by (simp add: example_world_def solver_file_def)
  from test_generator_spares_deliverable[OF h1 h2, of testgen_call 1
      "example_world (solver_file ''def solve(problem): return problem'')"] before
    example_harness_written
  show ?thesis by simp
qed

end
